theory Spec2Isabelle
  imports Complex_Main
begin

section \<open>JavaScript values\<close>

text \<open>
  The connector \<^verbatim>\<open>src/api/pinecone-assistant.js\<close> works on values that come out of
  \<^verbatim>\<open>JSON.parse\<close>, plus \<^verbatim>\<open>undefined\<close> for a property that is absent and the one
  built-in function a destructuring can pick up (\<^verbatim>\<open>filter\<close> of an array).
  Strings are byte strings (UTF-8); numbers are integers, exact while they stay below
  \<open>2^53\<close>: the source tests numbers for truth and finiteness and passes them on, and
  the only arithmetic is on the retry delay.  An object is the list of its properties
  in insertion order, with distinct keys.
\<close>

datatype json =
    JUndefined
  | JNull
  | JBool bool
  | JNum int
  | JStr string
  | JArr "json list"
  | JObj "(string \<times> json) list"
  | JFunc string

text \<open>Truthiness, as \<^verbatim>\<open>!x\<close>, \<^verbatim>\<open>x ? a : b\<close>, \<^verbatim>\<open>x || y\<close> and \<^verbatim>\<open>Boolean(x)\<close> see it.\<close>

fun truthy :: "json \<Rightarrow> bool" where
  "truthy JUndefined = False"
| "truthy JNull = False"
| "truthy (JBool b) = b"
| "truthy (JNum n) = (n \<noteq> 0)"
| "truthy (JStr s) = (s \<noteq> [])"
| "truthy (JArr xs) = True"
| "truthy (JObj fs) = True"
| "truthy (JFunc f) = True"

text \<open>\<^verbatim>\<open>x == null\<close>: what \<^verbatim>\<open>??\<close> and \<^verbatim>\<open>?.\<close> test.\<close>

fun nullish :: "json \<Rightarrow> bool" where
  "nullish JUndefined = True"
| "nullish JNull = True"
| "nullish v = False"

definition js_or :: "json \<Rightarrow> json \<Rightarrow> json" where
  "js_or a b = (if truthy a then a else b)"

definition js_coalesce :: "json \<Rightarrow> json \<Rightarrow> json" where
  "js_coalesce a b = (if nullish a then b else a)"

text \<open>A destructuring default \<^verbatim>\<open>{ x = d }\<close> applies to \<^verbatim>\<open>undefined\<close> only.\<close>

definition js_default :: "json \<Rightarrow> json \<Rightarrow> json" where
  "js_default a d = (if a = JUndefined then d else a)"

text \<open>
  Reading property \<open>k\<close> of a value that is neither \<^verbatim>\<open>null\<close> nor \<^verbatim>\<open>undefined\<close>
  (destructuring, and \<^verbatim>\<open>v.k\<close> after a guard).  Only the names the source reads are
  meant: of the inherited ones these are \<^verbatim>\<open>length\<close> and, on an array, \<^verbatim>\<open>filter\<close>.
\<close>

fun js_get :: "json \<Rightarrow> string \<Rightarrow> json" where
  "js_get (JObj fs) k = (case map_of fs k of None \<Rightarrow> JUndefined | Some v \<Rightarrow> v)"
| "js_get (JArr xs) k =
     (if k = ''length'' then JNum (int (length xs))
      else if k = ''filter'' then JFunc ''filter''
      else JUndefined)"
| "js_get (JStr s) k = (if k = ''length'' then JNum (int (length s)) else JUndefined)"
| "js_get v k = JUndefined"

text \<open>\<^verbatim>\<open>v?.k\<close>\<close>

definition opt_prop :: "json \<Rightarrow> string \<Rightarrow> json" where
  "opt_prop v k = (if nullish v then JUndefined else js_get v k)"

section \<open>Strings\<close>

fun startsWith :: "string \<Rightarrow> string \<Rightarrow> bool" where
  "startsWith [] s = True"
| "startsWith (p # ps) [] = False"
| "startsWith (p # ps) (c # cs) = (p = c \<and> startsWith ps cs)"

definition endsWith :: "string \<Rightarrow> string \<Rightarrow> bool" where
  "endsWith suf s = startsWith (rev suf) (rev s)"

text \<open>\<^verbatim>\<open>s.replace(/\/+$/, "")\<close>: every trailing slash goes.\<close>

definition strip_trailing_slashes :: "string \<Rightarrow> string" where
  "strip_trailing_slashes s = rev (dropWhile (\<lambda>c. c = CHR ''/'') (rev s))"

text \<open>\<^verbatim>\<open>s.replace(/\/$/, "")\<close>: one trailing slash goes.\<close>

definition strip_last_slash :: "string \<Rightarrow> string" where
  "strip_last_slash s = (if s \<noteq> [] \<and> last s = CHR ''/'' then butlast s else s)"

definition lower_chars :: string where
  "lower_chars = ''abcdefghijklmnopqrstuvwxyz''"

definition upper_chars :: string where
  "upper_chars = ''ABCDEFGHIJKLMNOPQRSTUVWXYZ''"

definition digit_chars :: string where
  "digit_chars = ''0123456789''"

section \<open>The platform's URL class, on the URLs the connector builds\<close>

text \<open>
  \<^verbatim>\<open>new URL(s)\<close> is the runtime's WHATWG parser.  The model covers the strings that
  parser leaves as they are (but for the path \<^verbatim>\<open>/\<close> it gives to a URL with none): scheme \<^verbatim>\<open>http\<close> or \<^verbatim>\<open>https\<close> in lower case followed by
  \<^verbatim>\<open>//\<close>, a host of lower-case letters, digits, hyphens and dots whose last label
  starts with a letter (so it is no IPv4 address) and none of whose labels is
  Punycode, then path, query and fragment over characters the parser neither escapes
  nor resolves (no dot, so no dot segment, in the path).  For every other string
  \<open>URL_new\<close> gives \<open>None\<close>, which stands for "the parser throws, or the string is not
  covered"; no result below depends on a \<open>None\<close> of the second kind.
\<close>

record url =
  protocol :: string
  hostname :: string
  pathname :: string
  query :: "string option"
  fragment :: "string option"

definition host_char :: "char \<Rightarrow> bool" where
  "host_char c = (c \<in> set (lower_chars @ digit_chars @ ''-.''))"

definition path_char :: "char \<Rightarrow> bool" where
  "path_char c = (c \<in> set (lower_chars @ upper_chars @ digit_chars @ ''-_~/''))"

definition query_char :: "char \<Rightarrow> bool" where
  "query_char c = (c \<in> set (lower_chars @ upper_chars @ digit_chars @ ''-_~/.=&''))"

fun has_infix :: "string \<Rightarrow> string \<Rightarrow> bool" where
  "has_infix p [] = (p = [])"
| "has_infix p (c # cs) = (startsWith p (c # cs) \<or> has_infix p cs)"

definition last_label :: "string \<Rightarrow> string" where
  "last_label h = rev (takeWhile (\<lambda>c. c \<noteq> CHR ''.'') (rev h))"

definition host_ok :: "string \<Rightarrow> bool" where
  "host_ok h =
     (h \<noteq> [] \<and> list_all host_char h
      \<and> last_label h \<noteq> [] \<and> hd (last_label h) \<in> set lower_chars
      \<and> \<not> startsWith ''xn--'' h \<and> \<not> has_infix ''.xn--'' h)"

definition after_host :: "char \<Rightarrow> bool" where
  "after_host c = (c = CHR ''/'' \<or> c = CHR ''?'' \<or> c = CHR ''#'')"

definition after_path :: "char \<Rightarrow> bool" where
  "after_path c = (c = CHR ''?'' \<or> c = CHR ''#'')"

text \<open>What follows the path: \<^verbatim>\<open>?query\<close> up to a \<^verbatim>\<open>#\<close>, then \<^verbatim>\<open>#fragment\<close>.\<close>

fun split_query :: "string \<Rightarrow> string option \<times> string option" where
  "split_query [] = (None, None)"
| "split_query (c # cs) =
     (if c = CHR ''?''
      then (Some (takeWhile (\<lambda>d. d \<noteq> CHR ''#'') cs),
            (case dropWhile (\<lambda>d. d \<noteq> CHR ''#'') cs of [] \<Rightarrow> None | d # ds \<Rightarrow> Some ds))
      else (None, Some cs))"

definition opt_all :: "(char \<Rightarrow> bool) \<Rightarrow> string option \<Rightarrow> bool" where
  "opt_all P so = (case so of None \<Rightarrow> True | Some s \<Rightarrow> list_all P s)"

definition parse_after_scheme :: "string \<Rightarrow> string \<Rightarrow> url option" where
  "parse_after_scheme proto rest =
     (let h = takeWhile (\<lambda>c. \<not> after_host c) rest;
          r1 = dropWhile (\<lambda>c. \<not> after_host c) rest;
          pa = takeWhile (\<lambda>c. \<not> after_path c) r1;
          qf = split_query (dropWhile (\<lambda>c. \<not> after_path c) r1)
      in if host_ok h \<and> list_all path_char pa
            \<and> opt_all query_char (fst qf) \<and> opt_all query_char (snd qf)
         then Some \<lparr> protocol = proto, hostname = h,
                     pathname = (if pa = [] then ''/'' else pa),
                     query = fst qf, fragment = snd qf \<rparr>
         else None)"

definition URL_new :: "string \<Rightarrow> url option" where
  "URL_new s =
     (if startsWith ''https://'' s then parse_after_scheme ''https:'' (drop 8 s)
      else if startsWith ''http://'' s then parse_after_scheme ''http:'' (drop 7 s)
      else None)"

text \<open>\<^verbatim>\<open>url.toString()\<close>\<close>

definition URL_toString :: "url \<Rightarrow> string" where
  "URL_toString u =
     protocol u @ ''//'' @ hostname u @ pathname u
     @ (case query u of None \<Rightarrow> [] | Some q \<Rightarrow> CHR ''?'' # q)
     @ (case fragment u of None \<Rightarrow> [] | Some f \<Rightarrow> CHR ''#'' # f)"




section \<open>Errors\<close>

text \<open>
  A thrown value is either the error \<^verbatim>\<open>enrich\<close> builds (marked \<^verbatim>\<open>__http\<close>, with
  status, message and details) or any other error, of which the handler reads the
  name and the message.
\<close>

datatype js_error =
    HttpErr nat string json
  | JsErr string string

section \<open>normalizeAssistantBase\<close>

text \<open>
  Lines 230-231: the pathname assigned is the old one without its trailing slashes,
  with \<^verbatim>\<open>/assistant\<close> appended unless it ends so already.
\<close>

definition assistant_path :: "string \<Rightarrow> string" where
  "assistant_path pn =
     (let path = strip_trailing_slashes pn
      in if endsWith ''/assistant'' path then path else path @ ''/assistant'')"

text \<open>
  Lines 227-234.  \<^verbatim>\<open>host.startsWith\<close> is a method of strings only: on any other value
  the call throws a TypeError.  On the URLs covered the pathname setter stores the
  path as it is given.
\<close>

definition normalizeAssistantBase :: "json \<Rightarrow> js_error + string" where
  "normalizeAssistantBase hostv =
     (case hostv of
        JStr h \<Rightarrow>
          (case (if startsWith ''http'' h then URL_new h else URL_new (''https://'' @ h)) of
             None \<Rightarrow> Inl (JsErr ''TypeError'' ''Invalid URL'')
           | Some u \<Rightarrow>
               Inr (strip_last_slash
                      (URL_toString (u \<lparr> pathname := assistant_path (pathname u) \<rparr>))))
      | _ \<Rightarrow> Inl (JsErr ''TypeError'' ''host.startsWith is not a function''))"

section \<open>Numbers and strings of the runtime\<close>

text \<open>Decimal digits of a natural number, most significant first.\<close>

fun dec :: "nat \<Rightarrow> string" where
  "dec n = (if n < 10 then [digit_chars ! n] else dec (n div 10) @ [digit_chars ! (n mod 10)])"

declare dec.simps [simp del]

definition show_int :: "int \<Rightarrow> string" where
  "show_int i = (if i < 0 then CHR ''-'' # dec (nat (- i)) else dec (nat i))"

definition join_comma :: "string list \<Rightarrow> string" where
  "join_comma xs = concat (case xs of [] \<Rightarrow> [] | y # ys \<Rightarrow> y # map (\<lambda>z. CHR '','' # z) ys)"

text \<open>\<^verbatim>\<open>String(v)\<close>, which a template literal and \<^verbatim>\<open>encodeURIComponent\<close> apply.\<close>

fun js_to_string :: "json \<Rightarrow> string" where
  "js_to_string JUndefined = ''undefined''"
| "js_to_string JNull = ''null''"
| "js_to_string (JBool b) = (if b then ''true'' else ''false'')"
| "js_to_string (JNum n) = show_int n"
| "js_to_string (JStr s) = s"
| "js_to_string (JArr xs) =
     join_comma (map (\<lambda>x. if x = JUndefined \<or> x = JNull then [] else js_to_string x) xs)"
| "js_to_string (JObj fs) = ''[object Object]''"
| "js_to_string (JFunc f) = ''function '' @ f @ ''() { [native code] }''"

text \<open>
  \<^verbatim>\<open>encodeURIComponent\<close>: every byte of the UTF-8 form is escaped as \<^verbatim>\<open>%XX\<close> except
  letters, digits and \<^verbatim>\<open>- _ . ! ~ * ' ( )\<close>.
\<close>

definition uri_unreserved :: "char \<Rightarrow> bool" where
  "uri_unreserved c =
     (c \<in> set (lower_chars @ upper_chars @ digit_chars @ ''-_.!~*()'') \<or> c = CHR 0x27)"

definition hex_chars :: string where
  "hex_chars = ''0123456789ABCDEF''"

definition escape_byte :: "char \<Rightarrow> string" where
  "escape_byte c =
     [CHR ''%'', hex_chars ! ((of_char c :: nat) div 16), hex_chars ! ((of_char c :: nat) mod 16)]"

definition encodeURIComponent :: "json \<Rightarrow> string" where
  "encodeURIComponent v =
     concat (map (\<lambda>c. if uri_unreserved c then [c] else escape_byte c) (js_to_string v))"

text \<open>
  \<^verbatim>\<open>parseInt(s, 10)\<close>: white space is skipped, one sign is read, then the longest run
  of decimal digits; with no digit the result is NaN, here \<open>None\<close>.
\<close>

definition js_space :: "char \<Rightarrow> bool" where
  "js_space c = (c \<in> set [CHR '' '', CHR 0x09, CHR 0x0A, CHR 0x0B, CHR 0x0C, CHR 0x0D])"

definition digit_value :: "char \<Rightarrow> nat" where
  "digit_value c = of_char c - 48"

definition digits_value :: "string \<Rightarrow> nat" where
  "digits_value ds = foldl (\<lambda>a c. 10 * a + digit_value c) 0 ds"

definition parseInt :: "string \<Rightarrow> int option" where
  "parseInt s =
     (let t = dropWhile js_space s;
          neg = (t \<noteq> [] \<and> hd t = CHR ''-'');
          r = (if t \<noteq> [] \<and> (hd t = CHR ''-'' \<or> hd t = CHR ''+'') then tl t else t);
          ds = takeWhile (\<lambda>c. c \<in> set digit_chars) r
      in if ds = [] then None
         else Some (if neg then - int (digits_value ds) else int (digits_value ds)))"

section \<open>The world outside the connector\<close>

text \<open>
  \<^verbatim>\<open>process.env\<close>, read when the module loads and at each request.
\<close>

record config =
  PINECONE_API_KEY :: "string option"
  PINECONE_API_VERSION :: "string option"
  ALLOWED_ORIGINS :: "string option"
  MONEYPENNY_AUTH_TOKEN :: "string option"

text \<open>Line 18: \<^verbatim>\<open>process.env.PINECONE_API_VERSION || "2025-04"\<close>.\<close>

definition API_VERSION :: "config \<Rightarrow> string" where
  "API_VERSION cfg =
     (case PINECONE_API_VERSION cfg of None \<Rightarrow> ''2025-04''
      | Some v \<Rightarrow> if v = [] then ''2025-04'' else v)"

text \<open>Line 19.\<close>

definition HOST_CACHE_TTL_MS :: int where
  "HOST_CACHE_TTL_MS = 5 * 60 * 1000"

text \<open>Lines 23-29.\<close>

definition LIMITS :: json where
  "LIMITS = JObj
     [(''upload_rpm'',
         JObj [(''starter'', JNum 5), (''standard'', JNum 20), (''enterprise'', JNum 300)]),
      (''file_size_mb'',
         JObj [(''pdf'',
                  JObj [(''starter'', JNum 10), (''standard'', JNum 100),
                        (''enterprise'', JNum 100)]),
               (''text_like'', JNum 10)])]"

text \<open>
  The second argument of \<^verbatim>\<open>fetch\<close>.  A header whose value is \<^verbatim>\<open>undefined\<close> (an unset
  API key) is \<open>None\<close>; the body is the object handed to \<^verbatim>\<open>JSON.stringify\<close>.
\<close>

record fetch_opts =
  o_method :: string
  o_headers :: "(string \<times> string option) list"
  o_body :: "json option"

text \<open>
  What \<^verbatim>\<open>fetch\<close> resolves to.  \<open>json_result\<close> is what \<^verbatim>\<open>resp.json()\<close> gives (it throws
  on a body that is no JSON), \<open>text_result\<close> what \<^verbatim>\<open>resp.text()\<close> gives when \<^verbatim>\<open>enrich\<close>
  calls it after a failed \<^verbatim>\<open>resp.json()\<close>.  Header names are in lower case, as the
  Headers class keeps them.
\<close>

record response =
  status :: nat
  statusText :: string
  resp_url :: string
  resp_headers :: "(string \<times> string) list"
  json_result :: "js_error + json"
  text_result :: "js_error + string"

definition ok :: "response \<Rightarrow> bool" where
  "ok resp = (200 \<le> status resp \<and> status resp \<le> 299)"

text \<open>
  The runtime and the upstream service.  \<open>upstream k u opts\<close> is what the \<open>k\<close>-th
  \<^verbatim>\<open>fetch\<close> of the process gives when called with \<open>u\<close> and \<open>opts\<close>: a network
  failure or a response.  \<open>Math_random k\<close> is the \<open>k\<close>-th value of \<^verbatim>\<open>Math.random()\<close>.
  \<^verbatim>\<open>JSON.parse\<close>, \<^verbatim>\<open>JSON.stringify\<close> and \<^verbatim>\<open>URLSearchParams.set\<close> are left open.
\<close>

record platform =
  upstream :: "nat \<Rightarrow> string \<Rightarrow> fetch_opts \<Rightarrow> js_error + response"
  Math_random :: "nat \<Rightarrow> real"
  JSON_parse :: "string \<Rightarrow> json option"
  JSON_stringify :: "json \<Rightarrow> json"
  searchParams_set :: "url \<Rightarrow> string \<Rightarrow> string \<Rightarrow> url"

text \<open>Line 20 and line 256: an entry of \<^verbatim>\<open>hostCache\<close>.\<close>

record cache_entry =
  host :: string
  expiresAt :: int

text \<open>
  The state a request can change: the host cache, and the trace of what the process
  did to the outside: the \<^verbatim>\<open>fetch\<close> calls issued, the delays slept, and how many
  random numbers were drawn.
\<close>

record world =
  hostCache :: "json \<rightharpoonup> cache_entry"
  fetched :: "(string \<times> fetch_opts) list"
  slept :: "int list"
  draws :: nat

text \<open>
  A \<^verbatim>\<open>Map\<close> compares keys that are objects by identity, and every request parses its
  own: an entry stored under such a key is never found again.
\<close>

fun primitive :: "json \<Rightarrow> bool" where
  "primitive (JArr xs) = False"
| "primitive (JObj fs) = False"
| "primitive (JFunc f) = False"
| "primitive v = True"

definition cache_get :: "(json \<rightharpoonup> cache_entry) \<Rightarrow> json \<Rightarrow> cache_entry option" where
  "cache_get c k = (if primitive k then c k else None)"

definition cache_set :: "(json \<rightharpoonup> cache_entry) \<Rightarrow> json \<Rightarrow> cache_entry \<Rightarrow> (json \<rightharpoonup> cache_entry)" where
  "cache_set c k e = (if primitive k then c(k \<mapsto> e) else c)"

definition fetch :: "platform \<Rightarrow> string \<Rightarrow> fetch_opts \<Rightarrow> world \<Rightarrow> (js_error + response) \<times> world" where
  "fetch p u opts w = (upstream p (length (fetched w)) u opts, w \<lparr> fetched := fetched w @ [(u, opts)] \<rparr>)"

section \<open>The fetch wrapper\<close>

text \<open>Lines 344-361.  The prefix is always the default one.\<close>

definition enrich :: "response \<Rightarrow> js_error" where
  "enrich resp =
     (let details = (case json_result resp of
                       Inr j \<Rightarrow> j
                     | Inl e \<Rightarrow> (case text_result resp of Inr t \<Rightarrow> JStr t | Inl e' \<Rightarrow> JNull))
      in HttpErr (status resp)
           (''Request failed: '' @ dec (status resp) @ '' '' @ statusText resp)
           (JObj [(''url'', JStr (resp_url resp)), (''body'', details)]))"

text \<open>
  Lines 332-335: the delay before a retry.  \<^verbatim>\<open>Math.random()\<close> is called in the second
  branch only.
\<close>

definition retry_delay :: "platform \<Rightarrow> response \<Rightarrow> int \<Rightarrow> world \<Rightarrow> int \<times> world" where
  "retry_delay p resp retries w =
     (let ra = parseInt (case map_of (resp_headers resp) ''retry-after'' of
                           None \<Rightarrow> ''0''
                         | Some v \<Rightarrow> if v = [] then ''0'' else v)
      in if (case ra of None \<Rightarrow> False | Some n \<Rightarrow> n > 0)
         then (the ra * 1000, w)
         else ((3 - retries) * 500 + \<lfloor>Math_random p (draws w) * 200\<rfloor>,
               w \<lparr> draws := draws w + 1 \<rparr>))"

text \<open>Lines 328-342.  Every caller leaves \<open>retries\<close> at its default, 2.\<close>

function doFetch :: "platform \<Rightarrow> string \<Rightarrow> fetch_opts \<Rightarrow> int \<Rightarrow> world \<Rightarrow> (js_error + response) \<times> world" where
  "doFetch p u opts retries w =
     (case fetch p u opts w of
        (Inl e, w1) \<Rightarrow> (Inl e, w1)
      | (Inr resp, w1) \<Rightarrow>
          if status resp = 429 \<and> retries > 0
          then (case retry_delay p resp retries w1 of
                  (delay, w2) \<Rightarrow>
                    doFetch p u opts (retries - 1) (w2 \<lparr> slept := slept w2 @ [delay] \<rparr>))
          else if \<not> ok resp then (Inl (enrich resp), w1)
          else (Inr resp, w1))"
  by pat_completeness auto
termination
  by (relation "measure (\<lambda>(p, u, opts, retries, w). nat retries)") auto

declare doFetch.simps [simp del]

text \<open>Lines 363-366, with the defaults of line 220 for a missing status.\<close>

definition normalizeError :: "js_error \<Rightarrow> nat option \<times> string \<times> json" where
  "normalizeError err =
     (case err of
        HttpErr st msg details \<Rightarrow> (Some st, msg, details)
      | JsErr name msg \<Rightarrow> (None, if msg \<noteq> [] then msg else name, JUndefined))"

section \<open>Host discovery and the upstream operations\<close>

text \<open>
  \<^verbatim>\<open>v.k\<close> with no guard: it throws on \<^verbatim>\<open>null\<close> and \<^verbatim>\<open>undefined\<close>.  The texts of
  the errors the runtime raises are V8's; no result depends on them.
\<close>

definition member :: "json \<Rightarrow> string \<Rightarrow> js_error + json" where
  "member v k =
     (if nullish v
      then Inl (JsErr ''TypeError''
                  (''Cannot read properties of '' @ js_to_string v @ '' (reading '' @ k @ '')''))
      else Inr (js_get v k))"

definition api_headers :: "config \<Rightarrow> (string \<times> string option) list" where
  "api_headers cfg =
     [(''Api-Key'', PINECONE_API_KEY cfg), (''X-Pinecone-API-Version'', Some (API_VERSION cfg))]"

definition get_opts :: "config \<Rightarrow> fetch_opts" where
  "get_opts cfg = \<lparr> o_method = ''GET'', o_headers = api_headers cfg, o_body = None \<rparr>"

definition delete_opts :: "config \<Rightarrow> fetch_opts" where
  "delete_opts cfg = \<lparr> o_method = ''DELETE'', o_headers = api_headers cfg, o_body = None \<rparr>"

definition post_opts :: "config \<Rightarrow> json \<Rightarrow> fetch_opts" where
  "post_opts cfg payload =
     \<lparr> o_method = ''POST'',
       o_headers = [(''Api-Key'', PINECONE_API_KEY cfg),
                    (''Content-Type'', Some ''application/json''),
                    (''X-Pinecone-API-Version'', Some (API_VERSION cfg))],
       o_body = Some payload \<rparr>"

definition assistant_url :: "json \<Rightarrow> string" where
  "assistant_url assistantName =
     ''https://api.pinecone.io/assistant/assistants/'' @ encodeURIComponent assistantName"

text \<open>
  Lines 236-258.  \<open>now\<close> is the value \<^verbatim>\<open>Date.now()\<close> returns on line 237.
\<close>

definition getAssistantBase :: "config \<Rightarrow> platform \<Rightarrow> int \<Rightarrow> json \<Rightarrow> world \<Rightarrow> (js_error + string) \<times> world" where
  "getAssistantBase cfg p now assistantName w =
     (let cached = cache_get (hostCache w) assistantName
      in if (case cached of None \<Rightarrow> False | Some c \<Rightarrow> expiresAt c > now)
         then (Inr (host (the cached)), w)
         else
           (case doFetch p (assistant_url assistantName) (get_opts cfg) 2 w of
              (Inl e, w1) \<Rightarrow> (Inl e, w1)
            | (Inr resp, w1) \<Rightarrow>
                (case json_result resp of
                   Inl e \<Rightarrow> (Inl e, w1)
                 | Inr data \<Rightarrow>
                     (case member data ''host'' of
                        Inl e \<Rightarrow> (Inl e, w1)
                      | Inr h \<Rightarrow>
                          if \<not> truthy h
                          then (Inl (JsErr ''Error'' (''Assistant response missing ''
                                       @ [CHR 0x27] @ ''host'' @ [CHR 0x27])), w1)
                          else
                            (case h of
                               JStr hs \<Rightarrow>
                                 (case normalizeAssistantBase
                                         (JStr (if startsWith ''http'' hs then hs
                                                else ''https://'' @ hs)) of
                                    Inl e \<Rightarrow> (Inl e, w1)
                                  | Inr base \<Rightarrow>
                                      (Inr base,
                                       w1 \<lparr> hostCache :=
                                              cache_set (hostCache w1) assistantName
                                                \<lparr> host = base,
                                                  expiresAt = now + HOST_CACHE_TTL_MS \<rparr> \<rparr>))
                             | _ \<Rightarrow>
                                 (Inl (JsErr ''TypeError''
                                         ''data.host.startsWith is not a function''), w1))))))"

text \<open>Lines 270-280.\<close>

definition describeAssistant :: "config \<Rightarrow> platform \<Rightarrow> json \<Rightarrow> world \<Rightarrow> (js_error + json) \<times> world" where
  "describeAssistant cfg p assistantName w =
     (case doFetch p (assistant_url assistantName) (get_opts cfg) 2 w of
        (Inl e, w1) \<Rightarrow> (Inl e, w1)
      | (Inr resp, w1) \<Rightarrow> (json_result resp, w1))"

text \<open>Lines 282-292.\<close>

definition listAssistants :: "config \<Rightarrow> platform \<Rightarrow> world \<Rightarrow> (js_error + json) \<times> world" where
  "listAssistants cfg p w =
     (case doFetch p ''https://api.pinecone.io/assistant/assistants'' (get_opts cfg) 2 w of
        (Inl e, w1) \<Rightarrow> (Inl e, w1)
      | (Inr resp, w1) \<Rightarrow> (json_result resp, w1))"

text \<open>Lines 296-309.\<close>

definition listFiles :: "config \<Rightarrow> platform \<Rightarrow> string \<Rightarrow> json \<Rightarrow> json \<Rightarrow> world \<Rightarrow> (js_error + json) \<times> world" where
  "listFiles cfg p base assistantName filt w =
     (case URL_new (base @ ''/files/'' @ encodeURIComponent assistantName) of
        None \<Rightarrow> (Inl (JsErr ''TypeError'' ''Invalid URL''), w)
      | Some u \<Rightarrow>
          let u' = (if truthy filt
                    then searchParams_set p u ''filter'' (js_to_string (JSON_stringify p filt))
                    else u)
          in (case doFetch p (URL_toString u') (get_opts cfg) 2 w of
                (Inl e, w1) \<Rightarrow> (Inl e, w1)
              | (Inr resp, w1) \<Rightarrow> (json_result resp, w1)))"

text \<open>Lines 311-324.\<close>

definition deleteFile :: "config \<Rightarrow> platform \<Rightarrow> string \<Rightarrow> json \<Rightarrow> json \<Rightarrow> world \<Rightarrow> (js_error + json) \<times> world" where
  "deleteFile cfg p base assistantName fileId w =
     (case doFetch p (base @ ''/files/'' @ encodeURIComponent assistantName @ ''/''
                        @ encodeURIComponent fileId) (delete_opts cfg) 2 w of
        (Inl e, w1) \<Rightarrow> (Inl e, w1)
      | (Inr resp, w1) \<Rightarrow>
          if status resp = 200 \<or> status resp = 204
          then (Inr (JObj [(''deleted'', JBool True), (''file_id'', fileId)]), w1)
          else (json_result resp, w1))"

section \<open>The request handler\<close>

text \<open>
  What the handler reads of the inbound request, and what it sends back: the status,
  the headers set, and the object given to \<^verbatim>\<open>res.json\<close> (none after \<^verbatim>\<open>res.end()\<close>).
  A property that is \<^verbatim>\<open>undefined\<close> stays in that object as \<open>JUndefined\<close>.
\<close>

record inbound =
  in_method :: string
  in_origin :: "string option"
  in_authorization :: "string option"
  in_body :: json

record outbound =
  out_status :: nat
  out_headers :: "(string \<times> string) list"
  out_body :: "json option"

fun split_on :: "char \<Rightarrow> string \<Rightarrow> string list" where
  "split_on c [] = [[]]"
| "split_on c (x # xs) =
     (if x = c then [] # split_on c xs
      else (case split_on c xs of [] \<Rightarrow> [[x]] | y # ys \<Rightarrow> (x # y) # ys))"

text \<open>Lines 33-38.\<close>

definition cors_headers :: "config \<Rightarrow> inbound \<Rightarrow> (string \<times> string) list" where
  "cors_headers cfg req =
     (let allowed = split_on CHR '',''
                      (case ALLOWED_ORIGINS cfg of
                         None \<Rightarrow> ''https://chatgpt.com''
                       | Some v \<Rightarrow> if v = [] then ''https://chatgpt.com'' else v);
          fallback = (case allowed of [] \<Rightarrow> ''*'' | a # as \<Rightarrow> if a = [] then ''*'' else a)
      in [(''Vary'', ''Origin''),
          (''Access-Control-Allow-Origin'',
             (case in_origin req of
                None \<Rightarrow> fallback
              | Some orig \<Rightarrow> if orig \<in> set allowed then orig else fallback)),
          (''Access-Control-Allow-Methods'', ''POST, OPTIONS''),
          (''Access-Control-Allow-Headers'', ''Content-Type, Authorization'')])"

text \<open>Lines 43-46.\<close>

definition authorized :: "config \<Rightarrow> inbound \<Rightarrow> bool" where
  "authorized cfg req =
     (case MONEYPENNY_AUTH_TOKEN cfg of
        None \<Rightarrow> True
      | Some t \<Rightarrow> t = [] \<or> in_authorization req = Some (''Bearer '' @ t))"

text \<open>Lines 49-54: \<open>None\<close> when \<^verbatim>\<open>JSON.parse\<close> throws.\<close>

definition parse_body :: "platform \<Rightarrow> json \<Rightarrow> json option" where
  "parse_body p b = (case b of JStr s \<Rightarrow> JSON_parse p s | _ \<Rightarrow> Some b)"

definition fail_body :: "string \<Rightarrow> json" where
  "fail_body msg = JObj [(''success'', JBool False), (''error'', JStr msg)]"

definition ok_body :: "string \<Rightarrow> json \<Rightarrow> json" where
  "ok_body ty d = JObj [(''success'', JBool True), (''type'', JStr ty), (''data'', d)]"

text \<open>
  \<^verbatim>\<open>assistant_host ? normalizeAssistantBase(assistant_host) : await getAssistantBase(name)\<close>
\<close>

definition resolve_base :: "config \<Rightarrow> platform \<Rightarrow> int \<Rightarrow> json \<Rightarrow> json \<Rightarrow> world \<Rightarrow> (js_error + string) \<times> world" where
  "resolve_base cfg p now assistant_host name w =
     (if truthy assistant_host then (normalizeAssistantBase assistant_host, w)
      else getAssistantBase cfg p now name w)"

text \<open>\<^verbatim>\<open>Number.isFinite\<close>\<close>

fun isFinite :: "json \<Rightarrow> bool" where
  "isFinite (JNum n) = True"
| "isFinite v = False"

text \<open>
  \<^verbatim>\<open>[...context]\<close>: an array gives its elements, a string its characters, and any
  other value is not iterable.
\<close>

definition spread :: "json \<Rightarrow> js_error + json list" where
  "spread v =
     (case v of
        JArr xs \<Rightarrow> Inr xs
      | JStr s \<Rightarrow> Inr (map (\<lambda>c. JStr [c]) s)
      | _ \<Rightarrow> Inl (JsErr ''TypeError'' ''context is not iterable''))"

definition opt_field :: "bool \<Rightarrow> string \<Rightarrow> json \<Rightarrow> (string \<times> json) list" where
  "opt_field c k v = (if c then [(k, v)] else [])"

text \<open>Lines 68-94: the payload of a chat call.\<close>

definition chat_payload :: "json \<Rightarrow> js_error + json" where
  "chat_payload data =
     (let d = js_or data (JObj []);
          message = js_get d ''message'';
          context = js_default (js_get d ''context'') (JArr []);
          model = js_default (js_get d ''model'') (JStr ''gpt-4o'');
          temperature = js_default (js_get d ''temperature'') (JNum 0);
          filt = js_get d ''filter'';
          json_response = js_get d ''json_response'';
          stream = js_default (js_get d ''stream'') (JBool False);
          include_highlights = js_default (js_get d ''include_highlights'') (JBool False);
          context_options = js_get d ''context_options'';
          top_k = js_get d ''top_k''
      in case spread context of
           Inl e \<Rightarrow> Inl e
         | Inr ctx \<Rightarrow>
             Inr (JObj
               ([(''messages'',
                    JArr (filter truthy
                            (ctx @ [if truthy message
                                    then JObj [(''role'', JStr ''user''), (''content'', message)]
                                    else JNull]))),
                 (''model'', model),
                 (''temperature'', temperature),
                 (''stream'', stream),
                 (''include_highlights'', include_highlights)]
                @ opt_field (truthy filt) ''filter'' filt
                @ opt_field (truthy json_response) ''json_response'' (JBool True)
                @ opt_field (truthy context_options) ''context_options'' context_options
                @ opt_field (isFinite top_k) ''top_k'' top_k)))"

text \<open>Lines 106-117: the answer to a chat request.\<close>

definition chat_result :: "json \<Rightarrow> js_error + json" where
  "chat_result out =
     (case member out ''message'' of
        Inl e \<Rightarrow> Inl e
      | Inr m \<Rightarrow>
          Inr (ok_body ''chat''
                 (JObj [(''response'', js_coalesce (opt_prop m ''content'') (JStr [])),
                        (''citations'', js_coalesce (js_get out ''citations'') (JArr [])),
                        (''context_snippets'',
                           js_coalesce (js_get out ''context_snippets'') (JArr [])),
                        (''usage'', js_coalesce (js_get out ''usage'') (JObj [])),
                        (''model'', js_get out ''model'')])))"

text \<open>
  The results of the cases of the \<^verbatim>\<open>switch\<close>: an error thrown, or the status and
  the object of the response.
\<close>

type_synonym reply = "(js_error + nat \<times> json) \<times> world"

text \<open>Lines 63-118.\<close>

definition handle_chat :: "config \<Rightarrow> platform \<Rightarrow> int \<Rightarrow> json \<Rightarrow> json \<Rightarrow> json \<Rightarrow> world \<Rightarrow> reply" where
  "handle_chat cfg p now assistant_host name data w =
     (if \<not> truthy name then (Inr (400, fail_body ''assistant_name is required''), w)
      else
        (case resolve_base cfg p now assistant_host name w of
           (Inl e, w1) \<Rightarrow> (Inl e, w1)
         | (Inr base, w1) \<Rightarrow>
             (case chat_payload data of
                Inl e \<Rightarrow> (Inl e, w1)
              | Inr payload \<Rightarrow>
                  (case doFetch p (base @ ''/chat/'' @ encodeURIComponent name)
                          (post_opts cfg payload) 2 w1 of
                     (Inl e, w2) \<Rightarrow> (Inl e, w2)
                   | (Inr resp, w2) \<Rightarrow>
                       (case json_result resp of
                          Inl e \<Rightarrow> (Inl e, w2)
                        | Inr out \<Rightarrow>
                            (case chat_result out of
                               Inl e \<Rightarrow> (Inl e, w2)
                             | Inr r \<Rightarrow> (Inr (200, r), w2)))))))"

text \<open>Lines 125-137: the payload of a search call, \<open>None\<close> for \<^verbatim>\<open>null\<close>.\<close>

definition search_payload :: "json \<Rightarrow> json option" where
  "search_payload data =
     (let d = js_or data (JObj []);
          query = js_get d ''query'';
          messages = js_get d ''messages'';
          top_k = js_get d ''top_k'';
          filt = js_get d ''filter'';
          context_options = js_get d ''context_options'';
          start = (if truthy (opt_prop messages ''length'') then Some [(''messages'', messages)]
                   else if truthy query then Some [(''query'', query)]
                   else None)
      in case start of
           None \<Rightarrow> None
         | Some fs \<Rightarrow>
             Some (JObj (fs
                         @ opt_field (truthy filt) ''filter'' filt
                         @ opt_field (isFinite top_k) ''top_k'' top_k
                         @ opt_field (truthy context_options) ''context_options'' context_options)))"

text \<open>Lines 149-158: the answer to a search request.\<close>

definition search_result :: "json \<Rightarrow> js_error + json" where
  "search_result out =
     (case member out ''snippets'' of
        Inl e \<Rightarrow> Inl e
      | Inr sn \<Rightarrow>
          Inr (ok_body ''search''
                 (JObj [(''snippets'', js_coalesce sn (JArr [])),
                        (''usage'', js_coalesce (js_get out ''usage'') (JObj [])),
                        (''id'', js_get out ''id'')])))"

text \<open>Lines 121-159.\<close>

definition handle_search :: "config \<Rightarrow> platform \<Rightarrow> int \<Rightarrow> json \<Rightarrow> json \<Rightarrow> json \<Rightarrow> world \<Rightarrow> reply" where
  "handle_search cfg p now assistant_host name data w =
     (if \<not> truthy name then (Inr (400, fail_body ''assistant_name is required''), w)
      else
        (case resolve_base cfg p now assistant_host name w of
           (Inl e, w1) \<Rightarrow> (Inl e, w1)
         | (Inr base, w1) \<Rightarrow>
             (case search_payload data of
                None \<Rightarrow>
                  (Inr (400, fail_body (''search: provide '' @ [CHR 0x27] @ ''query''
                          @ [CHR 0x27] @ '' or '' @ [CHR 0x27] @ ''messages'' @ [CHR 0x27])), w1)
              | Some payload \<Rightarrow>
                  (case doFetch p (base @ ''/chat/'' @ encodeURIComponent name @ ''/context'')
                          (post_opts cfg payload) 2 w1 of
                     (Inl e, w2) \<Rightarrow> (Inl e, w2)
                   | (Inr resp, w2) \<Rightarrow>
                       (case json_result resp of
                          Inl e \<Rightarrow> (Inl e, w2)
                        | Inr out \<Rightarrow>
                            (case search_result out of
                               Inl e \<Rightarrow> (Inl e, w2)
                             | Inr r \<Rightarrow> (Inr (200, r), w2)))))))"

text \<open>Lines 163-167.\<close>

definition handle_describeAssistant :: "config \<Rightarrow> platform \<Rightarrow> json \<Rightarrow> world \<Rightarrow> reply" where
  "handle_describeAssistant cfg p name w =
     (if \<not> truthy name then (Inr (400, fail_body ''assistant_name is required''), w)
      else
        (case describeAssistant cfg p name w of
           (Inl e, w1) \<Rightarrow> (Inl e, w1)
         | (Inr r, w1) \<Rightarrow> (Inr (200, ok_body ''describeAssistant'' r), w1)))"

text \<open>Lines 169-173.\<close>

definition handle_listAssistants :: "config \<Rightarrow> platform \<Rightarrow> world \<Rightarrow> reply" where
  "handle_listAssistants cfg p w =
     (case listAssistants cfg p w of
        (Inl e, w1) \<Rightarrow> (Inl e, w1)
      | (Inr r, w1) \<Rightarrow> (Inr (200, ok_body ''listAssistants'' r), w1))"

text \<open>Lines 177-183.\<close>

definition handle_listFiles :: "config \<Rightarrow> platform \<Rightarrow> int \<Rightarrow> json \<Rightarrow> json \<Rightarrow> json \<Rightarrow> world \<Rightarrow> reply" where
  "handle_listFiles cfg p now assistant_host name data w =
     (if \<not> truthy name then (Inr (400, fail_body ''assistant_name is required''), w)
      else
        (case resolve_base cfg p now assistant_host name w of
           (Inl e, w1) \<Rightarrow> (Inl e, w1)
         | (Inr base, w1) \<Rightarrow>
             (case listFiles cfg p base name (opt_prop data ''filter'') w1 of
                (Inl e, w2) \<Rightarrow> (Inl e, w2)
              | (Inr r, w2) \<Rightarrow> (Inr (200, ok_body ''listFiles'' r), w2))))"

text \<open>Lines 185-191.\<close>

definition handle_deleteFile :: "config \<Rightarrow> platform \<Rightarrow> int \<Rightarrow> json \<Rightarrow> json \<Rightarrow> json \<Rightarrow> world \<Rightarrow> reply" where
  "handle_deleteFile cfg p now assistant_host name data w =
     (if \<not> truthy name then (Inr (400, fail_body ''assistant_name is required''), w)
      else if \<not> truthy (opt_prop data ''file_id'')
      then (Inr (400, fail_body ''file_id is required''), w)
      else
        (case resolve_base cfg p now assistant_host name w of
           (Inl e, w1) \<Rightarrow> (Inl e, w1)
         | (Inr base, w1) \<Rightarrow>
             (case deleteFile cfg p base name (js_get data ''file_id'') w1 of
                (Inl e, w2) \<Rightarrow> (Inl e, w2)
              | (Inr r, w2) \<Rightarrow> (Inr (200, ok_body ''deleteFile'' r), w2))))"

text \<open>Lines 194-201.\<close>

definition store_body :: json where
  "store_body = JObj
     [(''success'', JBool False),
      (''error'', JStr ''File upload deferred (VS2). Use Pinecone console for now.''),
      (''details'', JStr ''REST multipart upload will be implemented in VS3.''),
      (''limits'', LIMITS)]"

text \<open>Lines 203-216.\<close>

definition supported_actions :: "string list" where
  "supported_actions =
     [''chat'', ''search'', ''describeAssistant'', ''listAssistants'', ''listFiles'',
      ''deleteFile'', ''store'']"

definition invalid_action_body :: json where
  "invalid_action_body = JObj
     [(''success'', JBool False),
      (''error'', JStr ''Invalid action''),
      (''supported_actions'', JArr (map JStr supported_actions))]"

text \<open>Lines 59-217: the \<^verbatim>\<open>switch\<close>, which compares \<open>action\<close> with \<^verbatim>\<open>===\<close>.\<close>

definition route :: "config \<Rightarrow> platform \<Rightarrow> int \<Rightarrow> json \<Rightarrow> json \<Rightarrow> json \<Rightarrow> json \<Rightarrow> world \<Rightarrow> reply" where
  "route cfg p now action assistant_host name data w =
     (if action = JStr ''chat'' then handle_chat cfg p now assistant_host name data w
      else if action = JStr ''search'' then handle_search cfg p now assistant_host name data w
      else if action = JStr ''describeAssistant'' then handle_describeAssistant cfg p name w
      else if action = JStr ''listAssistants'' then handle_listAssistants cfg p w
      else if action = JStr ''listFiles'' then handle_listFiles cfg p now assistant_host name data w
      else if action = JStr ''deleteFile'' then handle_deleteFile cfg p now assistant_host name data w
      else if action = JStr ''store'' then (Inr (501, store_body), w)
      else (Inr (400, invalid_action_body), w))"

text \<open>
  Lines 31-223.  \<open>now\<close> is the reading of the clock that \<^verbatim>\<open>getAssistantBase\<close> takes
  if the request comes to it.
\<close>

definition handler :: "config \<Rightarrow> platform \<Rightarrow> inbound \<Rightarrow> int \<Rightarrow> world \<Rightarrow> outbound \<times> world" where
  "handler cfg p req now w =
     (let hs = cors_headers cfg req
      in if in_method req = ''OPTIONS''
         then (\<lparr> out_status = 200, out_headers = hs, out_body = None \<rparr>, w)
         else if in_method req \<noteq> ''POST''
         then (\<lparr> out_status = 405, out_headers = hs,
                 out_body = Some (fail_body ''Method not allowed'') \<rparr>, w)
         else if \<not> authorized cfg req
         then (\<lparr> out_status = 401, out_headers = hs,
                 out_body = Some (fail_body ''Unauthorized'') \<rparr>, w)
         else
           (case parse_body p (in_body req) of
              None \<Rightarrow>
                (\<lparr> out_status = 400, out_headers = hs,
                   out_body = Some (fail_body ''Invalid JSON body'') \<rparr>, w)
            | Some body \<Rightarrow>
                let b = js_or body (JObj []);
                    action = js_get b ''action'';
                    assistant_name = js_get b ''assistant_name'';
                    assistant_host = js_get b ''assistant_host'';
                    data = js_default (js_get b ''data'') (JObj []);
                    assistant_id = js_get b ''assistant_id'';
                    name = js_or assistant_name assistant_id
                in (case route cfg p now action assistant_host name data w of
                      (Inr (st, js), w1) \<Rightarrow>
                        (\<lparr> out_status = st, out_headers = hs, out_body = Some js \<rparr>, w1)
                    | (Inl err, w1) \<Rightarrow>
                        (case normalizeError err of
                           (st, msg, details) \<Rightarrow>
                             (\<lparr> out_status = (case st of None \<Rightarrow> 500 | Some n \<Rightarrow> n),
                                out_headers = hs,
                                out_body = Some (JObj [(''success'', JBool False),
                                                       (''error'', JStr msg),
                                                       (''details'', details)]) \<rparr>, w1)))))"

section \<open>Concrete runs\<close>

text \<open>
  The configuration, the cold start and the upstream behaviours at which the results
  below are instantiated.
\<close>

definition cfg0 :: config where
  "cfg0 = \<lparr> PINECONE_API_KEY = Some ''pc-key'', PINECONE_API_VERSION = None,
            ALLOWED_ORIGINS = None, MONEYPENNY_AUTH_TOKEN = None \<rparr>"

definition w0 :: world where
  "w0 = \<lparr> hostCache = Map.empty, fetched = [], slept = [], draws = 0 \<rparr>"

definition reply_with :: "nat \<Rightarrow> string \<Rightarrow> (string \<times> string) list \<Rightarrow> js_error + json \<Rightarrow> string \<Rightarrow> response" where
  "reply_with st txt hs j u =
     \<lparr> status = st, statusText = txt, resp_url = u, resp_headers = hs, json_result = j,
       text_result = Inl (JsErr ''TypeError'' ''Body is unusable'') \<rparr>"

definition no_json :: "js_error + json" where
  "no_json = Inl (JsErr ''SyntaxError'' ''Unexpected end of JSON input'')"

definition runtime :: "(nat \<Rightarrow> string \<Rightarrow> fetch_opts \<Rightarrow> js_error + response) \<Rightarrow> platform" where
  "runtime up =
     \<lparr> upstream = up, Math_random = (\<lambda>k. 1 / 2), JSON_parse = (\<lambda>s. None),
       JSON_stringify = (\<lambda>j. JUndefined), searchParams_set = (\<lambda>u k v. u) \<rparr>"

text \<open>An upstream that answers 429 to everything, without and with a Retry-After.\<close>

definition p_busy :: platform where
  "p_busy = runtime (\<lambda>k u opts. Inr (reply_with 429 ''Too Many Requests'' [] no_json u))"


text \<open>An upstream that acknowledges with an empty 204, and one that answers 202 with a body.\<close>

definition p_gone :: platform where
  "p_gone = runtime (\<lambda>k u opts. Inr (reply_with 204 ''No Content'' [] no_json u))"


text \<open>An upstream that answers every request with the host of the assistant.\<close>

definition p_host :: platform where
  "p_host =
     runtime (\<lambda>k u opts.
       Inr (reply_with 200 ''OK'' [] (Inr (JObj [(''host'', JStr ''example.com'')])) u))"

text \<open>
  The upstream of the chat scenario: the first request (the discovery) is answered
  with the host, every later one with the chat reply.
\<close>

definition p_demo :: platform where
  "p_demo =
     runtime (\<lambda>k u opts.
       if k = 0 then Inr (reply_with 200 ''OK'' [] (Inr (JObj [(''host'', JStr ''example.com'')])) u)
       else Inr (reply_with 200 ''OK'' []
                   (Inr (JObj [(''message'', JObj [(''content'', JStr ''hi'')])])) u))"

text \<open>A POST that passes the checks of lines 39-54 under \<open>cfg0\<close>, with a parsed body.\<close>

definition post :: "json \<Rightarrow> inbound" where
  "post body = \<lparr> in_method = ''POST'', in_origin = None, in_authorization = None, in_body = body \<rparr>"

text \<open>The bodies of the requests of the scenarios, and the payload the chat one sends.\<close>

definition chat_hello :: json where
  "chat_hello = JObj [(''action'', JStr ''chat''), (''assistant_name'', JStr ''demo''),
                      (''data'', JObj [(''message'', JStr ''hello'')])]"

definition hello_payload :: json where
  "hello_payload = JObj
     [(''messages'', JArr [JObj [(''role'', JStr ''user''), (''content'', JStr ''hello'')]]),
      (''model'', JStr ''gpt-4o''),
      (''temperature'', JNum 0),
      (''stream'', JBool False),
      (''include_highlights'', JBool False)]"

definition search_bare :: json where
  "search_bare = JObj [(''action'', JStr ''search''), (''assistant_name'', JStr ''demo''),
                       (''data'', JObj [])]"



section \<open>The fetch wrapper: attempts, delays, termination\<close>

lemma retry_delay_world:
  assumes "retry_delay p resp n w = (d, w2)"
  shows "fetched w2 = fetched w \<and> slept w2 = slept w \<and> hostCache w2 = hostCache w"
  using assms by (auto simp: retry_delay_def Let_def split: if_splits)

text \<open>
  Whatever the upstream does, a call of \<open>doFetch\<close> with \<open>n\<close> retries issues between one
  and \<open>n + 1\<close> requests, all the same, sleeps once between two of them and leaves the
  host cache alone.
\<close>

lemma doFetch_trace:
  "doFetch p u opts n w = (r, w') \<Longrightarrow>
     \<exists>k ds. 1 \<le> k \<and> k \<le> nat n + 1 \<and> fetched w' = fetched w @ replicate k (u, opts)
       \<and> slept w' = slept w @ ds \<and> length ds = k - 1 \<and> hostCache w' = hostCache w"
proof (induction p u opts n w arbitrary: r w' rule: doFetch.induct)
  case (1 p u opts retries w)
  obtain x w1 where f: "fetch p u opts w = (x, w1)" by (cases "fetch p u opts w")
  then have w1: "w1 = w \<lparr> fetched := fetched w @ [(u, opts)] \<rparr>"
    by (simp add: fetch_def)
  show ?case
  proof (cases x)
    case (Inl e)
    with f "1.prems" have "w' = w1" by (simp add: doFetch.simps)
    with w1 show ?thesis
      by (intro exI[of _ 1] exI[of _ "[]"]) simp
  next
    case (Inr resp)
    show ?thesis
    proof (cases "status resp = 429 \<and> retries > 0")
      case False
      with f Inr "1.prems" have "w' = w1" by (auto simp: doFetch.simps split: if_splits)
      with w1 show ?thesis
        by (intro exI[of _ 1] exI[of _ "[]"]) simp
    next
      case True
      obtain d w2 where rd: "retry_delay p resp retries w1 = (d, w2)"
        by (cases "retry_delay p resp retries w1")
      let ?w3 = "w2 \<lparr> slept := slept w2 @ [d] \<rparr>"
      from f Inr True rd "1.prems" have rec: "doFetch p u opts (retries - 1) ?w3 = (r, w')"
        by (simp add: doFetch.simps)
      from "1.IH"[OF f[symmetric] Inr True rd[symmetric] rec]
      obtain k ds where k: "1 \<le> k" "k \<le> nat (retries - 1) + 1"
        "fetched w' = fetched ?w3 @ replicate k (u, opts)"
        "slept w' = slept ?w3 @ ds" "length ds = k - 1" "hostCache w' = hostCache ?w3"
        by blast
      from retry_delay_world[OF rd] w1
      have w3: "fetched ?w3 = fetched w @ [(u, opts)]" "slept ?w3 = slept w @ [d]"
        "hostCache ?w3 = hostCache w" by simp_all
      show ?thesis
      proof (intro exI[of _ "Suc k"] exI[of _ "d # ds"] conjI)
        show "fetched w' = fetched w @ replicate (Suc k) (u, opts)"
          using k(3) w3(1) by simp
        show "slept w' = slept w @ d # ds" using k(4) w3(2) by simp
        show "length (d # ds) = Suc k - 1" using k(1,5) by simp
        show "hostCache w' = hostCache w" using k(6) w3(3) by simp
        show "Suc k \<le> nat retries + 1" using k(2) True by linarith
      qed simp
    qed
  qed
qed


lemma doFetch_final:
  assumes up: "upstream p (length (fetched w)) u opts = Inr resp"
    and st: "status resp \<noteq> 429 \<or> retries \<le> 0"
  shows "doFetch p u opts retries w =
           (if ok resp then Inr resp else Inl (enrich resp),
            w \<lparr> fetched := fetched w @ [(u, opts)] \<rparr>)"
  using assms by (subst doFetch.simps) (auto simp: fetch_def)


lemma enrich_status: "\<exists>msg details. enrich resp = HttpErr (status resp) msg details"
  by (simp add: enrich_def Let_def)

text \<open>
  Against an upstream that answers 429 every time, a call with \<open>n\<close> retries makes
  \<open>n + 1\<close> attempts and throws what \<^verbatim>\<open>enrich\<close> makes of the last response.
\<close>

lemma doFetch_all_429:
  "\<forall>i. \<exists>resp. upstream p i u opts = Inr resp \<and> status resp = 429 \<Longrightarrow> 0 \<le> n \<Longrightarrow>
     \<exists>resp w'. upstream p (length (fetched w) + nat n) u opts = Inr resp
        \<and> doFetch p u opts n w = (Inl (enrich resp), w')
        \<and> fetched w' = fetched w @ replicate (nat n + 1) (u, opts)
        \<and> length (slept w') = length (slept w) + nat n"
proof (induction p u opts n w rule: doFetch.induct)
  case (1 p u opts retries w)
  note all = "1.prems"(1)
  then obtain resp where up: "upstream p (length (fetched w)) u opts = Inr resp"
    and st: "status resp = 429" by blast
  let ?w1 = "w \<lparr> fetched := fetched w @ [(u, opts)] \<rparr>"
  have f: "fetch p u opts w = (Inr resp, ?w1)" using up by (simp add: fetch_def)
  show ?case
  proof (cases "retries > 0")
    case False
    with "1.prems"(2) have z: "retries = 0" by simp
    have "doFetch p u opts retries w = (Inl (enrich resp), ?w1)"
      using f st z by (simp add: doFetch.simps ok_def)
    with up z show ?thesis by simp
  next
    case True
    obtain d w2 where rd: "retry_delay p resp retries ?w1 = (d, w2)"
      by (cases "retry_delay p resp retries ?w1")
    let ?w3 = "w2 \<lparr> slept := slept w2 @ [d] \<rparr>"
    have step: "doFetch p u opts retries w = doFetch p u opts (retries - 1) ?w3"
      using f st True rd by (simp add: doFetch.simps)
    from retry_delay_world[OF rd]
    have w3: "fetched ?w3 = fetched w @ [(u, opts)]" "slept ?w3 = slept w @ [d]" by simp_all
    have "0 \<le> retries - 1" using True by simp
    from "1.IH"[OF f[symmetric] refl _ rd[symmetric] all this] st True
    obtain resp' w' where r: "upstream p (length (fetched ?w3) + nat (retries - 1)) u opts = Inr resp'"
      "doFetch p u opts (retries - 1) ?w3 = (Inl (enrich resp'), w')"
      "fetched w' = fetched ?w3 @ replicate (nat (retries - 1) + 1) (u, opts)"
      "length (slept w') = length (slept ?w3) + nat (retries - 1)"
      by blast
    have n: "nat retries = Suc (nat (retries - 1))" using True by simp
    show ?thesis
    proof (intro exI[of _ resp'] exI[of _ w'] conjI)
      show "upstream p (length (fetched w) + nat retries) u opts = Inr resp'"
        using r(1) w3(1) n by simp
      show "doFetch p u opts retries w = (Inl (enrich resp'), w')" using step r(2) by simp
      show "fetched w' = fetched w @ replicate (nat retries + 1) (u, opts)"
        using r(3) w3(1) n by simp
      show "length (slept w') = length (slept w) + nat retries"
        using r(4) w3(2) n by simp
    qed
  qed
qed

text \<open>
  C2.  When the upstream answers every attempt of a call with HTTP 429, \<open>doFetch\<close>
  (called, as everywhere in the source, with two retries) makes the first attempt and
  two retries, three requests in all with two sleeps between them, and then throws the
  error that \<^verbatim>\<open>enrich\<close> builds from the third response, which carries status 429.
  That the recursion ends for every upstream is the termination proof of \<open>doFetch\<close>:
  the measure is \<open>retries\<close>, which goes down by one in the recursive call.
\<close>

theorem dispatcher_gives_up_after_two_retries:
  assumes "\<forall>i. \<exists>resp. upstream p i u opts = Inr resp \<and> status resp = 429"
  shows "\<exists>resp msg details w'.
           upstream p (length (fetched w) + 2) u opts = Inr resp
         \<and> doFetch p u opts 2 w = (Inl (enrich resp), w')
         \<and> enrich resp = HttpErr 429 msg details
         \<and> fetched w' = fetched w @ replicate 3 (u, opts)
         \<and> length (slept w') = length (slept w) + 2"
proof -
  from doFetch_all_429[OF assms, of 2 w]
  obtain resp w' where r: "upstream p (length (fetched w) + 2) u opts = Inr resp"
    "doFetch p u opts 2 w = (Inl (enrich resp), w')"
    "fetched w' = fetched w @ replicate 3 (u, opts)"
    "length (slept w') = length (slept w) + 2"
    by (auto simp: numeral_3_eq_3)
  from assms r(1) have "status resp = 429" by (metis Inr_inject)
  with enrich_status[of resp] obtain msg details where "enrich resp = HttpErr 429 msg details"
    by auto
  with r show ?thesis by blast
qed

theorem dispatcher_gives_up_after_two_retries_witness:
  "(\<forall>i. \<exists>resp. upstream p_busy i ''https://api.pinecone.io/assistant/assistants''
                   (get_opts cfg0) = Inr resp \<and> status resp = 429)
   \<and> (\<exists>resp msg details w'.
         upstream p_busy (length (fetched w0) + 2)
           ''https://api.pinecone.io/assistant/assistants'' (get_opts cfg0) = Inr resp
       \<and> doFetch p_busy ''https://api.pinecone.io/assistant/assistants'' (get_opts cfg0) 2 w0
           = (Inl (enrich resp), w')
       \<and> enrich resp = HttpErr 429 msg details
       \<and> fetched w' = fetched w0
           @ replicate 3 (''https://api.pinecone.io/assistant/assistants'', get_opts cfg0)
       \<and> length (slept w') = length (slept w0) + 2)"
proof -
  have h: "\<forall>i. \<exists>resp. upstream p_busy i ''https://api.pinecone.io/assistant/assistants''
                   (get_opts cfg0) = Inr resp \<and> status resp = 429"
    by (simp add: p_busy_def runtime_def reply_with_def)
  from h dispatcher_gives_up_after_two_retries[OF h, of w0] show ?thesis by (rule conjI)
qed





section \<open>deleteFile\<close>

lemma enc_demo: "encodeURIComponent (JStr ''demo'') = ''demo''"
  by (simp add: encodeURIComponent_def uri_unreserved_def lower_chars_def)

lemma enc_file1: "encodeURIComponent (JStr ''file-1'') = ''file-1''"
  by (simp add: encodeURIComponent_def uri_unreserved_def lower_chars_def upper_chars_def
      digit_chars_def)

text \<open>
  C6.  When the response that \<open>doFetch\<close> hands back to \<^verbatim>\<open>deleteFile\<close> has status 200 or
  204, the result is \<^verbatim>\<open>{deleted: true, file_id}\<close> with the file id as it was given,
  whatever the body is: \<open>json_result\<close> is not consulted, so a body that is no JSON (an
  empty 204) does no harm.
\<close>

theorem deleteFile_acknowledged:
  assumes "doFetch p (base @ ''/files/'' @ encodeURIComponent assistantName @ ''/''
                        @ encodeURIComponent fileId) (delete_opts cfg) 2 w = (Inr resp, w')"
    and "status resp = 200 \<or> status resp = 204"
  shows "deleteFile cfg p base assistantName fileId w =
           (Inr (JObj [(''deleted'', JBool True), (''file_id'', fileId)]), w')"
  using assms by (auto simp: deleteFile_def)

theorem deleteFile_acknowledged_witness:
  "doFetch p_gone ''https://example.com/assistant/files/demo/file-1'' (delete_opts cfg0) 2 w0
     = (Inr (reply_with 204 ''No Content'' [] no_json
               ''https://example.com/assistant/files/demo/file-1''),
        w0 \<lparr> fetched := [(''https://example.com/assistant/files/demo/file-1'', delete_opts cfg0)] \<rparr>)
   \<and> json_result (reply_with 204 ''No Content'' [] no_json
                     ''https://example.com/assistant/files/demo/file-1'')
       = Inl (JsErr ''SyntaxError'' ''Unexpected end of JSON input'')
   \<and> deleteFile cfg0 p_gone ''https://example.com/assistant'' (JStr ''demo'') (JStr ''file-1'') w0
     = (Inr (JObj [(''deleted'', JBool True), (''file_id'', JStr ''file-1'')]),
        w0 \<lparr> fetched := [(''https://example.com/assistant/files/demo/file-1'', delete_opts cfg0)] \<rparr>)"
proof -
  let ?u = "''https://example.com/assistant/files/demo/file-1''"
  let ?r = "reply_with 204 ''No Content'' [] no_json ?u"
  have up: "upstream p_gone (length (fetched w0)) ?u (delete_opts cfg0) = Inr ?r"
    by (simp add: p_gone_def runtime_def)
  have st: "status ?r = 204" by (simp add: reply_with_def)
  from doFetch_final[OF up, of 2] st
  have run: "doFetch p_gone ?u (delete_opts cfg0) 2 w0
               = (Inr ?r, w0 \<lparr> fetched := [(?u, delete_opts cfg0)] \<rparr>)"
    by (simp add: ok_def w0_def)
  have u: "''https://example.com/assistant'' @ ''/files/'' @ encodeURIComponent (JStr ''demo'')
             @ ''/'' @ encodeURIComponent (JStr ''file-1'') = ?u"
    by (simp add: enc_demo enc_file1)
  from run have run': "doFetch p_gone (''https://example.com/assistant'' @ ''/files/''
             @ encodeURIComponent (JStr ''demo'') @ ''/'' @ encodeURIComponent (JStr ''file-1''))
             (delete_opts cfg0) 2 w0 = (Inr ?r, w0 \<lparr> fetched := [(?u, delete_opts cfg0)] \<rparr>)"
    by (simp only: u)
  have "status ?r = 200 \<or> status ?r = 204" using st by simp
  from deleteFile_acknowledged[OF run' this]
  have d: "deleteFile cfg0 p_gone ''https://example.com/assistant'' (JStr ''demo'') (JStr ''file-1'') w0
     = (Inr (JObj [(''deleted'', JBool True), (''file_id'', JStr ''file-1'')]),
        w0 \<lparr> fetched := [(?u, delete_opts cfg0)] \<rparr>)" .
  have j: "json_result ?r = Inl (JsErr ''SyntaxError'' ''Unexpected end of JSON input'')"
    by (simp add: reply_with_def no_json_def)
  from run j d show ?thesis by (intro conjI)
qed




section \<open>normalizeAssistantBase: two examples and idempotence\<close>

lemmas char_class_defs = host_char_def path_char_def query_char_def after_host_def
  after_path_def lower_chars_def upper_chars_def digit_chars_def

















lemma normalize_string:
  "normalizeAssistantBase (JStr h) =
     (case (if startsWith ''http'' h then URL_new h else URL_new (''https://'' @ h)) of
        None \<Rightarrow> Inl (JsErr ''TypeError'' ''Invalid URL'')
      | Some u \<Rightarrow> Inr (strip_last_slash (URL_toString (u \<lparr> pathname := assistant_path (pathname u) \<rparr>))))"
  by (simp add: normalizeAssistantBase_def assistant_path_def Let_def split: option.splits)













lemmas normalize_eval = normalize_string URL_new_def parse_after_scheme_def host_ok_def
  char_class_defs last_label_def opt_all_def URL_toString_def strip_last_slash_def
  strip_trailing_slashes_def endsWith_def assistant_path_def








section \<open>The chat payload\<close>

lemma map_of_without:
  "map_of (filter (\<lambda>kv. fst kv \<noteq> m) fs) k = (if k = m then None else map_of fs k)"
  by (induction fs) auto

lemma js_get_without:
  "js_get (JObj (filter (\<lambda>kv. fst kv \<noteq> m) fs)) k
     = (if k = m then JUndefined else js_get (JObj fs) k)"
  by (simp add: map_of_without)

lemma chat_payload_object:
  "chat_payload (JObj fs) =
     (case spread (js_default (js_get (JObj fs) ''context'') (JArr [])) of
        Inl e \<Rightarrow> Inl e
      | Inr ctx \<Rightarrow>
          Inr (JObj
            ([(''messages'',
                 JArr (filter truthy ctx
                       @ (if truthy (js_get (JObj fs) ''message'')
                          then [JObj [(''role'', JStr ''user''),
                                      (''content'', js_get (JObj fs) ''message'')]]
                          else []))),
              (''model'', js_default (js_get (JObj fs) ''model'') (JStr ''gpt-4o'')),
              (''temperature'', js_default (js_get (JObj fs) ''temperature'') (JNum 0)),
              (''stream'', js_default (js_get (JObj fs) ''stream'') (JBool False)),
              (''include_highlights'',
                 js_default (js_get (JObj fs) ''include_highlights'') (JBool False))]
             @ opt_field (truthy (js_get (JObj fs) ''filter'')) ''filter'' (js_get (JObj fs) ''filter'')
             @ opt_field (truthy (js_get (JObj fs) ''json_response'')) ''json_response'' (JBool True)
             @ opt_field (truthy (js_get (JObj fs) ''context_options'')) ''context_options''
                 (js_get (JObj fs) ''context_options'')
             @ opt_field (isFinite (js_get (JObj fs) ''top_k'')) ''top_k''
                 (js_get (JObj fs) ''top_k''))))"
  unfolding chat_payload_def Let_def js_or_def
  by (simp split: sum.splits del: js_get.simps)

lemma chat_payload_messages:
  assumes "spread (js_default (js_get (JObj fs) ''context'') (JArr [])) = Inr ctx"
  shows "\<exists>payload. chat_payload (JObj fs) = Inr payload
           \<and> js_get payload ''messages''
               = JArr (filter truthy ctx
                       @ (if truthy (js_get (JObj fs) ''message'')
                          then [JObj [(''role'', JStr ''user''),
                                      (''content'', js_get (JObj fs) ''message'')]]
                          else []))"
  unfolding chat_payload_object using assms by (simp del: js_get.simps) simp

text \<open>
  C9.  When \<^verbatim>\<open>data.message\<close> of a chat request is the empty string, the payload built is
  the payload of the same request without the \<^verbatim>\<open>message\<close> property: the empty string
  is falsy, so no user turn is appended.  Its \<^verbatim>\<open>messages\<close> list is then the prior
  context alone: the elements of \<^verbatim>\<open>context\<close> when that is an array of turns
  (\<^verbatim>\<open>filter(Boolean)\<close> runs over them too, and keeps every object), and empty when
  \<^verbatim>\<open>context\<close> is absent.
\<close>

theorem empty_message_is_dropped:
  assumes "map_of fs ''message'' = Some (JStr [])"
  shows "chat_payload (JObj fs) = chat_payload (JObj (filter (\<lambda>kv. fst kv \<noteq> ''message'') fs))
       \<and> (\<forall>ctx. js_get (JObj fs) ''context'' = JArr ctx \<and> list_all truthy ctx
            \<longrightarrow> (\<exists>payload. chat_payload (JObj fs) = Inr payload
                    \<and> js_get payload ''messages'' = JArr ctx))
       \<and> (js_get (JObj fs) ''context'' = JUndefined
            \<longrightarrow> (\<exists>payload. chat_payload (JObj fs) = Inr payload
                    \<and> js_get payload ''messages'' = JArr []))"
proof (intro conjI allI impI)
  from assms have m: "js_get (JObj fs) ''message'' = JStr []" by simp
  show "chat_payload (JObj fs) = chat_payload (JObj (filter (\<lambda>kv. fst kv \<noteq> ''message'') fs))"
    unfolding chat_payload_object js_get_without m by simp
  {
    fix ctx
    assume c: "js_get (JObj fs) ''context'' = JArr ctx \<and> list_all truthy ctx"
    then have "spread (js_default (js_get (JObj fs) ''context'') (JArr [])) = Inr ctx"
      by (simp add: js_default_def spread_def del: js_get.simps)
    from chat_payload_messages[OF this] m c
    show "\<exists>payload. chat_payload (JObj fs) = Inr payload \<and> js_get payload ''messages'' = JArr ctx"
      by (simp add: list_all_iff del: js_get.simps)
  }
  {
    assume "js_get (JObj fs) ''context'' = JUndefined"
    then have "spread (js_default (js_get (JObj fs) ''context'') (JArr [])) = Inr []"
      by (simp add: js_default_def spread_def del: js_get.simps)
    from chat_payload_messages[OF this] m
    show "\<exists>payload. chat_payload (JObj fs) = Inr payload \<and> js_get payload ''messages'' = JArr []"
      by (simp del: js_get.simps)
  }
qed

theorem empty_message_is_dropped_witness:
  "map_of [(''message'', JStr []),
           (''context'', JArr [JObj [(''role'', JStr ''user''), (''content'', JStr ''earlier'')]])]
       ''message'' = Some (JStr [])
   \<and> (\<exists>payload.
         chat_payload (JObj [(''message'', JStr []),
           (''context'', JArr [JObj [(''role'', JStr ''user''), (''content'', JStr ''earlier'')]])])
           = Inr payload
         \<and> chat_payload (JObj
              [(''context'', JArr [JObj [(''role'', JStr ''user''), (''content'', JStr ''earlier'')]])])
           = Inr payload
         \<and> js_get payload ''messages''
           = JArr [JObj [(''role'', JStr ''user''), (''content'', JStr ''earlier'')]])"
proof -
  let ?ctx = "[JObj [(''role'', JStr ''user''), (''content'', JStr ''earlier'')]]"
  let ?fs = "[(''message'', JStr []), (''context'', JArr ?ctx)]"
  have h: "map_of ?fs ''message'' = Some (JStr [])" by simp
  have c: "js_get (JObj ?fs) ''context'' = JArr ?ctx \<and> list_all truthy ?ctx" by simp
  have f: "filter (\<lambda>kv. fst kv \<noteq> ''message'') ?fs = [(''context'', JArr ?ctx)]" by simp
  from empty_message_is_dropped[OF h] c f
  have "chat_payload (JObj ?fs) = chat_payload (JObj [(''context'', JArr ?ctx)])
        \<and> (\<exists>payload. chat_payload (JObj ?fs) = Inr payload
               \<and> js_get payload ''messages'' = JArr ?ctx)"
    by (metis (no_types, lifting))
  with h show ?thesis by metis
qed

section \<open>Requests without an assistant name\<close>

lemma handler_post:
  assumes "in_method req = ''POST''" and "authorized cfg req"
    and "parse_body p (in_body req) = Some body"
  shows "handler cfg p req now w =
     (case route cfg p now (js_get (js_or body (JObj [])) ''action'')
             (js_get (js_or body (JObj [])) ''assistant_host'')
             (js_or (js_get (js_or body (JObj [])) ''assistant_name'')
                    (js_get (js_or body (JObj [])) ''assistant_id''))
             (js_default (js_get (js_or body (JObj [])) ''data'') (JObj [])) w of
        (Inr (st, js), w1) \<Rightarrow>
          (\<lparr> out_status = st, out_headers = cors_headers cfg req, out_body = Some js \<rparr>, w1)
      | (Inl err, w1) \<Rightarrow>
          (case normalizeError err of
             (st, msg, details) \<Rightarrow>
               (\<lparr> out_status = (case st of None \<Rightarrow> 500 | Some n \<Rightarrow> n),
                  out_headers = cors_headers cfg req,
                  out_body = Some (JObj [(''success'', JBool False), (''error'', JStr msg),
                                         (''details'', details)]) \<rparr>, w1)))"
  using assms unfolding handler_def Let_def by simp



lemma post_passes:
  "in_method (post b) = ''POST''" "authorized cfg0 (post b)" "in_body (post b) = b"
  by (simp_all add: post_def authorized_def cfg0_def)




section \<open>Host discovery and its cache\<close>

lemma assistant_url_demo:
  "assistant_url (JStr ''demo'') = ''https://api.pinecone.io/assistant/assistants/demo''"
  by (simp add: assistant_url_def enc_demo)

lemma doFetch_single:
  assumes "\<forall>resp. upstream p (length (fetched w)) u opts = Inr resp \<longrightarrow> status resp \<noteq> 429"
  shows "snd (doFetch p u opts n w) = w \<lparr> fetched := fetched w @ [(u, opts)] \<rparr>"
  using assms
  by (subst doFetch.simps) (auto simp: fetch_def split: sum.splits)

lemma getAssistantBase_hit:
  assumes "cache_get (hostCache w) name = Some c" and "now < expiresAt c"
  shows "getAssistantBase cfg p now name w = (Inr (host c), w)"
  using assms by (simp add: getAssistantBase_def)

lemma getAssistantBase_miss:
  assumes miss: "\<forall>c. cache_get (hostCache w) name = Some c \<longrightarrow> expiresAt c \<le> now"
    and run: "getAssistantBase cfg p now name w = (r, w')"
  shows "\<exists>x w1. doFetch p (assistant_url name) (get_opts cfg) 2 w = (x, w1)
           \<and> fetched w' = fetched w1 \<and> slept w' = slept w1
           \<and> (\<forall>base. r = Inr base \<longrightarrow>
                 hostCache w' = cache_set (hostCache w) name
                                  \<lparr> host = base, expiresAt = now + HOST_CACHE_TTL_MS \<rparr>)"
proof -
  obtain x w1 where d: "doFetch p (assistant_url name) (get_opts cfg) 2 w = (x, w1)"
    by (cases "doFetch p (assistant_url name) (get_opts cfg) 2 w")
  from doFetch_trace[OF d] have hc: "hostCache w1 = hostCache w" by blast
  have nolive: "\<not> (case cache_get (hostCache w) name of None \<Rightarrow> False | Some c \<Rightarrow> now < expiresAt c)"
    using miss by (auto split: option.splits)
  from run nolive d hc
  have "fetched w' = fetched w1 \<and> slept w' = slept w1
        \<and> (\<forall>base. r = Inr base \<longrightarrow>
              hostCache w' = cache_set (hostCache w) name
                               \<lparr> host = base, expiresAt = now + HOST_CACHE_TTL_MS \<rparr>)"
    unfolding getAssistantBase_def Let_def
    by (auto split: sum.splits json.splits if_splits)
  with d show ?thesis by blast
qed

lemma getAssistantBase_discovers:
  assumes miss: "\<forall>c. cache_get (hostCache w) name = Some c \<longrightarrow> expiresAt c \<le> now"
    and up: "upstream p (length (fetched w)) (assistant_url name) (get_opts cfg) = Inr r0"
    and ok: "ok r0"
    and js: "json_result r0 = Inr d0" and h: "js_get d0 ''host'' = JStr hs" and ne: "hs \<noteq> []"
    and nb: "normalizeAssistantBase (JStr (if startsWith ''http'' hs then hs else ''https://'' @ hs))
               = Inr base"
  shows "getAssistantBase cfg p now name w
           = (Inr base,
              w \<lparr> fetched := fetched w @ [(assistant_url name, get_opts cfg)],
                  hostCache := cache_set (hostCache w) name
                                 \<lparr> host = base, expiresAt = now + HOST_CACHE_TTL_MS \<rparr> \<rparr>)"
proof -
  from ok have "status r0 \<noteq> 429 \<or> (2::int) \<le> 0" by (simp add: ok_def)
  from doFetch_final[OF up this] ok
  have d: "doFetch p (assistant_url name) (get_opts cfg) 2 w
             = (Inr r0, w \<lparr> fetched := fetched w @ [(assistant_url name, get_opts cfg)] \<rparr>)"
    by simp
  have nolive: "\<not> (case cache_get (hostCache w) name of None \<Rightarrow> False | Some c \<Rightarrow> now < expiresAt c)"
    using miss by (auto split: option.splits)
  from h have nn: "\<not> nullish d0" by (cases d0) auto
  show ?thesis
    unfolding getAssistantBase_def Let_def
    using nolive d js h ne nb nn by (simp add: member_def del: js_get.simps)
qed

lemma normalize_https_host:
  "normalizeAssistantBase (JStr ''https://example.com'') = Inr ''https://example.com/assistant''"
  by (simp add: normalize_eval)

lemma demo_discovery:
  "upstream p_demo (length (fetched w0)) ''https://api.pinecone.io/assistant/assistants/demo''
     (get_opts cfg0)
     = Inr (reply_with 200 ''OK'' [] (Inr (JObj [(''host'', JStr ''example.com'')]))
              ''https://api.pinecone.io/assistant/assistants/demo'')"
  by (simp add: p_demo_def runtime_def w0_def)

lemma demo_chat:
  "upstream p_demo (length (fetched w0) + 1) (''https://example.com/assistant'' @ ''/chat/demo'')
     (post_opts cfg0 hello_payload)
     = Inr (reply_with 200 ''OK'' [] (Inr (JObj [(''message'', JObj [(''content'', JStr ''hi'')])]))
              (''https://example.com/assistant'' @ ''/chat/demo''))"
  by (simp add: p_demo_def runtime_def w0_def)

lemma reply_with_sel:
  "status (reply_with st txt hs j u) = st" "json_result (reply_with st txt hs j u) = j"
  "resp_headers (reply_with st txt hs j u) = hs"
  by (simp_all add: reply_with_def)

lemma demo_host:
  "js_get (JObj [(''host'', JStr ''example.com'')]) ''host'' = JStr ''example.com''"
  "''example.com'' \<noteq> []"
  "normalizeAssistantBase (JStr (if startsWith ''http'' ''example.com'' then ''example.com''
                                 else ''https://'' @ ''example.com''))
     = Inr ''https://example.com/assistant''"
  using normalize_https_host by simp_all

lemma cold_start: "hostCache w0 k = None"
  by (simp add: w0_def)

lemma no_calls_yet: "fetched w0 = []"
  by (simp add: w0_def)

lemma host_discovery:
  "upstream p_host (length (fetched w0)) (assistant_url (JStr ''demo'')) (get_opts cfg0)
     = Inr (reply_with 200 ''OK'' [] (Inr (JObj [(''host'', JStr ''example.com'')]))
              (assistant_url (JStr ''demo'')))"
  by (simp add: p_host_def runtime_def)

text \<open>
  C1.  Take a resolution of the base URL of assistant \<open>n\<close> at time \<open>now1\<close>, with no
  explicit host, that finds no live entry and succeeds with \<open>base\<close>.  It stores the entry
  \<open>(base, now1 + 5 minutes)\<close> and issues one call of \<open>doFetch\<close> to the discovery URL: one
  request, or up to three when the upstream answers 429 first.  A second resolution at
  any time before \<open>now1 + 5 minutes\<close> returns \<open>base\<close> and leaves the world as it is: no
  request goes out.  A resolution at or after that time issues a discovery call again
  and, when it succeeds, overwrites the entry with its own result and expiry.
\<close>

theorem host_cache_ttl:
  assumes first: "getAssistantBase cfg p now1 (JStr n) w = (Inr base, w1)"
    and miss: "\<forall>c. hostCache w (JStr n) = Some c \<longrightarrow> expiresAt c \<le> now1"
  shows "hostCache w1 (JStr n) = Some \<lparr> host = base, expiresAt = now1 + 5 * 60 * 1000 \<rparr>
       \<and> (\<exists>k. 1 \<le> k \<and> k \<le> 3
              \<and> fetched w1 = fetched w @ replicate k (assistant_url (JStr n), get_opts cfg))
       \<and> ((\<forall>resp. upstream p (length (fetched w)) (assistant_url (JStr n)) (get_opts cfg) = Inr resp
                   \<longrightarrow> status resp \<noteq> 429)
            \<longrightarrow> fetched w1 = fetched w @ [(assistant_url (JStr n), get_opts cfg)])
       \<and> (\<forall>now2. now2 < now1 + 5 * 60 * 1000
              \<longrightarrow> getAssistantBase cfg p now2 (JStr n) w1 = (Inr base, w1))
       \<and> (\<forall>now3 r w3. now1 + 5 * 60 * 1000 \<le> now3
                       \<and> getAssistantBase cfg p now3 (JStr n) w1 = (r, w3)
              \<longrightarrow> (\<exists>k. 1 \<le> k \<and> k \<le> 3
                      \<and> fetched w3 = fetched w1 @ replicate k (assistant_url (JStr n), get_opts cfg))
                  \<and> (\<forall>base'. r = Inr base'
                        \<longrightarrow> hostCache w3 (JStr n)
                              = Some \<lparr> host = base', expiresAt = now3 + 5 * 60 * 1000 \<rparr>))"
proof -
  let ?u = "assistant_url (JStr n)" and ?o = "get_opts cfg"
  from miss have miss': "\<forall>c. cache_get (hostCache w) (JStr n) = Some c \<longrightarrow> expiresAt c \<le> now1"
    by (simp add: cache_get_def)
  from getAssistantBase_miss[OF miss' first]
  obtain x wd where d: "doFetch p ?u ?o 2 w = (x, wd)" and f: "fetched w1 = fetched wd"
    and hc: "hostCache w1 = cache_set (hostCache w) (JStr n)
                              \<lparr> host = base, expiresAt = now1 + HOST_CACHE_TTL_MS \<rparr>"
    by blast
  from hc have entry: "hostCache w1 (JStr n) = Some \<lparr> host = base, expiresAt = now1 + 5 * 60 * 1000 \<rparr>"
    by (simp add: cache_set_def HOST_CACHE_TTL_MS_def)
  from doFetch_trace[OF d] f
  have calls: "\<exists>k. 1 \<le> k \<and> k \<le> 3 \<and> fetched w1 = fetched w @ replicate k (?u, ?o)"
    by auto
  have single: "fetched w1 = fetched w @ [(?u, ?o)]"
    if "\<forall>resp. upstream p (length (fetched w)) ?u ?o = Inr resp \<longrightarrow> status resp \<noteq> 429"
    using doFetch_single[OF that, of 2] d f by simp
  have hit: "getAssistantBase cfg p now2 (JStr n) w1 = (Inr base, w1)"
    if "now2 < now1 + 5 * 60 * 1000" for now2
  proof -
    from entry have "cache_get (hostCache w1) (JStr n)
                       = Some \<lparr> host = base, expiresAt = now1 + 5 * 60 * 1000 \<rparr>"
      by (simp add: cache_get_def)
    from getAssistantBase_hit[OF this, of now2 cfg p] that show ?thesis by simp
  qed
  have again: "(\<exists>k. 1 \<le> k \<and> k \<le> 3 \<and> fetched w3 = fetched w1 @ replicate k (?u, ?o))
             \<and> (\<forall>base'. r = Inr base'
                   \<longrightarrow> hostCache w3 (JStr n)
                         = Some \<lparr> host = base', expiresAt = now3 + 5 * 60 * 1000 \<rparr>)"
    if "now1 + 5 * 60 * 1000 \<le> now3 \<and> getAssistantBase cfg p now3 (JStr n) w1 = (r, w3)"
    for now3 r w3
  proof -
    from that entry
    have m3: "\<forall>c. cache_get (hostCache w1) (JStr n) = Some c \<longrightarrow> expiresAt c \<le> now3"
      by (simp add: cache_get_def)
    from that have run3: "getAssistantBase cfg p now3 (JStr n) w1 = (r, w3)" by simp
    from getAssistantBase_miss[OF m3 run3]
    obtain x3 wd3 where d3: "doFetch p ?u ?o 2 w1 = (x3, wd3)" and f3: "fetched w3 = fetched wd3"
      and hc3: "\<forall>base'. r = Inr base' \<longrightarrow>
                  hostCache w3 = cache_set (hostCache w1) (JStr n)
                                   \<lparr> host = base', expiresAt = now3 + HOST_CACHE_TTL_MS \<rparr>"
      by blast
    from doFetch_trace[OF d3] f3
    have "\<exists>k. 1 \<le> k \<and> k \<le> 3 \<and> fetched w3 = fetched w1 @ replicate k (?u, ?o)" by auto
    moreover from hc3
    have "\<forall>base'. r = Inr base'
            \<longrightarrow> hostCache w3 (JStr n) = Some \<lparr> host = base', expiresAt = now3 + 5 * 60 * 1000 \<rparr>"
      by (simp add: cache_set_def HOST_CACHE_TTL_MS_def)
    ultimately show ?thesis by (rule conjI)
  qed
  from entry calls single hit again show ?thesis by blast
qed

theorem host_cache_ttl_witness:
  "fst (getAssistantBase cfg0 p_host 1000 (JStr ''demo'') w0) = Inr ''https://example.com/assistant''
   \<and> hostCache w0 (JStr ''demo'') = None
   \<and> hostCache (snd (getAssistantBase cfg0 p_host 1000 (JStr ''demo'') w0)) (JStr ''demo'')
       = Some \<lparr> host = ''https://example.com/assistant'', expiresAt = 1000 + 5 * 60 * 1000 \<rparr>
   \<and> fetched (snd (getAssistantBase cfg0 p_host 1000 (JStr ''demo'') w0))
       = fetched w0 @ [(assistant_url (JStr ''demo''), get_opts cfg0)]
   \<and> getAssistantBase cfg0 p_host 2000 (JStr ''demo'')
         (snd (getAssistantBase cfg0 p_host 1000 (JStr ''demo'') w0))
       = (Inr ''https://example.com/assistant'',
          snd (getAssistantBase cfg0 p_host 1000 (JStr ''demo'') w0))
   \<and> (\<exists>k. 1 \<le> k \<and> k \<le> 3
        \<and> fetched (snd (getAssistantBase cfg0 p_host 301000 (JStr ''demo'')
                           (snd (getAssistantBase cfg0 p_host 1000 (JStr ''demo'') w0))))
            = fetched (snd (getAssistantBase cfg0 p_host 1000 (JStr ''demo'') w0))
              @ replicate k (assistant_url (JStr ''demo''), get_opts cfg0))"
proof -
  let ?n = "JStr ''demo''"
  let ?r = "reply_with 200 ''OK'' [] (Inr (JObj [(''host'', JStr ''example.com'')]))
              (assistant_url ?n)"
  let ?w1 = "snd (getAssistantBase cfg0 p_host 1000 ?n w0)"
  have miss0: "\<forall>c. cache_get (hostCache w0) ?n = Some c \<longrightarrow> expiresAt c \<le> 1000"
    by (simp add: cache_get_def cold_start)
  have okr: "ok ?r" by (simp add: ok_def reply_with_sel)
  from getAssistantBase_discovers[OF miss0 host_discovery okr reply_with_sel(2) demo_host]
  have first: "getAssistantBase cfg0 p_host 1000 ?n w0 = (Inr ''https://example.com/assistant'', ?w1)"
    by simp
  have miss: "\<forall>c. hostCache w0 ?n = Some c \<longrightarrow> expiresAt c \<le> 1000"
    by (simp add: cold_start)
  note t = host_cache_ttl[OF first miss]
  have single: "\<forall>resp. upstream p_host (length (fetched w0)) (assistant_url ?n) (get_opts cfg0)
                   = Inr resp \<longrightarrow> status resp \<noteq> 429"
    by (simp add: host_discovery reply_with_sel)
  have run3: "getAssistantBase cfg0 p_host 301000 ?n ?w1
                = (fst (getAssistantBase cfg0 p_host 301000 ?n ?w1),
                   snd (getAssistantBase cfg0 p_host 301000 ?n ?w1))" by simp
  have late: "(1000::int) + 5 * 60 * 1000 \<le> 301000" by simp
  have early: "(2000::int) < 1000 + 5 * 60 * 1000" by simp
  from t have c1: "hostCache ?w1 ?n
       = Some \<lparr> host = ''https://example.com/assistant'', expiresAt = 1000 + 5 * 60 * 1000 \<rparr>"
    by blast
  from t single have c2: "fetched ?w1 = fetched w0 @ [(assistant_url ?n, get_opts cfg0)]"
    by blast
  from t early have c3: "getAssistantBase cfg0 p_host 2000 ?n ?w1
                           = (Inr ''https://example.com/assistant'', ?w1)"
    by blast
  from t late run3 have c4: "\<exists>k. 1 \<le> k \<and> k \<le> 3
        \<and> fetched (snd (getAssistantBase cfg0 p_host 301000 ?n ?w1))
            = fetched ?w1 @ replicate k (assistant_url ?n, get_opts cfg0)"
    by blast
  have c0: "fst (getAssistantBase cfg0 p_host 1000 ?n w0) = Inr ''https://example.com/assistant''"
    by (subst first) simp
  from c0 cold_start[of ?n] c1 c2 c3 c4 show ?thesis by (intro conjI)
qed

section \<open>The chat scenario\<close>

lemma chat_payload_hello: "chat_payload (JObj [(''message'', JStr ''hello'')]) = Inr hello_payload"
  by (simp add: chat_payload_def js_or_def js_default_def spread_def opt_field_def
      hello_payload_def)

lemma chat_result_hi:
  "chat_result (JObj [(''message'', JObj [(''content'', JStr ''hi'')])])
     = Inr (JObj [(''success'', JBool True), (''type'', JStr ''chat''),
                  (''data'', JObj [(''response'', JStr ''hi''), (''citations'', JArr []),
                                   (''context_snippets'', JArr []), (''usage'', JObj []),
                                   (''model'', JUndefined)])])"
  by (simp add: chat_result_def member_def opt_prop_def js_coalesce_def ok_body_def)

lemma chat_hello_run:
  assumes post: "in_method req = ''POST''" and auth: "authorized cfg req"
    and body: "in_body req = chat_hello"
    and cold: "hostCache w (JStr ''demo'') = None"
    and up0: "upstream p (length (fetched w)) ''https://api.pinecone.io/assistant/assistants/demo''
                (get_opts cfg) = Inr r0"
    and st0: "status r0 = 200" and js0: "json_result r0 = Inr d0"
    and h0: "js_get d0 ''host'' = JStr hs" and ne: "hs \<noteq> []"
    and nb: "normalizeAssistantBase (JStr (if startsWith ''http'' hs then hs else ''https://'' @ hs))
               = Inr base"
    and up1: "upstream p (length (fetched w) + 1) (base @ ''/chat/demo'')
                (post_opts cfg hello_payload) = Inr r1"
    and st1: "status r1 = 200"
    and js1: "json_result r1 = Inr (JObj [(''message'', JObj [(''content'', JStr ''hi'')])])"
  shows "fst (handler cfg p req now w)
           = \<lparr> out_status = 200, out_headers = cors_headers cfg req,
               out_body = Some (JObj [(''success'', JBool True), (''type'', JStr ''chat''),
                  (''data'', JObj [(''response'', JStr ''hi''), (''citations'', JArr []),
                                   (''context_snippets'', JArr []), (''usage'', JObj []),
                                   (''model'', JUndefined)])]) \<rparr>"
    and "fetched (snd (handler cfg p req now w))
           = fetched w @ [(''https://api.pinecone.io/assistant/assistants/demo'', get_opts cfg),
                          (base @ ''/chat/demo'', post_opts cfg hello_payload)]"
    and "hostCache (snd (handler cfg p req now w)) (JStr ''demo'')
           = Some \<lparr> host = base, expiresAt = now + 5 * 60 * 1000 \<rparr>"
proof -
  let ?name = "JStr ''demo''" and ?data = "JObj [(''message'', JStr ''hello'')]"
  let ?u0 = "''https://api.pinecone.io/assistant/assistants/demo''"
  let ?w1 = "w \<lparr> fetched := fetched w @ [(assistant_url ?name, get_opts cfg)],
                 hostCache := cache_set (hostCache w) ?name
                                \<lparr> host = base, expiresAt = now + HOST_CACHE_TTL_MS \<rparr> \<rparr>"
  let ?w2 = "?w1 \<lparr> fetched := fetched ?w1 @ [(base @ ''/chat/demo'', post_opts cfg hello_payload)] \<rparr>"
  have pb: "parse_body p (in_body req) = Some chat_hello"
    by (simp add: body parse_body_def chat_hello_def)
  have miss: "\<forall>c. cache_get (hostCache w) ?name = Some c \<longrightarrow> expiresAt c \<le> now"
    using cold by (simp add: cache_get_def)
  have ok0: "ok r0" and ok1: "ok r1" using st0 st1 by (simp_all add: ok_def)
  from up0 have up0': "upstream p (length (fetched w)) (assistant_url ?name) (get_opts cfg) = Inr r0"
    by (simp only: assistant_url_demo)
  note g = getAssistantBase_discovers[OF miss up0' ok0 js0 h0 ne nb]
  have rb: "resolve_base cfg p now JUndefined ?name w = (Inr base, ?w1)"
    by (simp add: resolve_base_def g)
  have len: "length (fetched ?w1) = length (fetched w) + 1" by simp
  have "status r1 \<noteq> 429 \<or> (2::int) \<le> 0" using st1 by simp
  from doFetch_final[of p ?w1 "base @ ''/chat/demo''" "post_opts cfg hello_payload" r1 2,
      unfolded len, OF up1 this] ok1
  have d1: "doFetch p (base @ ''/chat/demo'') (post_opts cfg hello_payload) 2 ?w1 = (Inr r1, ?w2)"
    by simp
  have u1: "base @ ''/chat/'' @ encodeURIComponent ?name = base @ ''/chat/demo''"
    by (simp add: enc_demo)
  have hc: "handle_chat cfg p now JUndefined ?name ?data w
              = (Inr (200, JObj [(''success'', JBool True), (''type'', JStr ''chat''),
                  (''data'', JObj [(''response'', JStr ''hi''), (''citations'', JArr []),
                                   (''context_snippets'', JArr []), (''usage'', JObj []),
                                   (''model'', JUndefined)])]), ?w2)"
    using rb d1 js1
    by (simp add: handle_chat_def chat_payload_hello enc_demo chat_result_hi del: js_get.simps)
  have h: "handler cfg p req now w
             = (\<lparr> out_status = 200, out_headers = cors_headers cfg req,
                  out_body = Some (JObj [(''success'', JBool True), (''type'', JStr ''chat''),
                     (''data'', JObj [(''response'', JStr ''hi''), (''citations'', JArr []),
                                      (''context_snippets'', JArr []), (''usage'', JObj []),
                                      (''model'', JUndefined)])]) \<rparr>, ?w2)"
    unfolding handler_post[OF post auth pb]
    by (simp add: chat_hello_def js_or_def js_default_def route_def hc)
  show "fst (handler cfg p req now w)
           = \<lparr> out_status = 200, out_headers = cors_headers cfg req,
               out_body = Some (JObj [(''success'', JBool True), (''type'', JStr ''chat''),
                  (''data'', JObj [(''response'', JStr ''hi''), (''citations'', JArr []),
                                   (''context_snippets'', JArr []), (''usage'', JObj []),
                                   (''model'', JUndefined)])]) \<rparr>"
    by (simp add: h)
  show "fetched (snd (handler cfg p req now w))
           = fetched w @ [(''https://api.pinecone.io/assistant/assistants/demo'', get_opts cfg),
                          (base @ ''/chat/demo'', post_opts cfg hello_payload)]"
    by (simp add: h assistant_url_demo)
  show "hostCache (snd (handler cfg p req now w)) (JStr ''demo'')
           = Some \<lparr> host = base, expiresAt = now + 5 * 60 * 1000 \<rparr>"
    by (simp add: h cache_set_def HOST_CACHE_TTL_MS_def)
qed

text \<open>
  C5, as the code has it.  A chat request for assistant \<^verbatim>\<open>demo\<close> with data
  \<^verbatim>\<open>{message: "hello"}\<close> on a cold cache issues one discovery call, then posts to
  \<^verbatim>\<open>{base}/chat/demo\<close> the payload \<open>hello_payload\<close> (the one user message, model
  \<^verbatim>\<open>gpt-4o\<close>, temperature 0, and the two flags at false); when the upstream answers 200
  with \<^verbatim>\<open>{message: {content: "hi"}}\<close> the handler answers 200 with
  \<^verbatim>\<open>{success: true, type: "chat", data: {response: "hi", citations: [],
  context_snippets: [], usage: {}, model: undefined}}\<close>, and the host is cached.
\<close>

theorem chat_scenario:
  assumes "in_method req = ''POST''" and "authorized cfg req" and "in_body req = chat_hello"
    and "hostCache w (JStr ''demo'') = None"
    and "upstream p (length (fetched w)) ''https://api.pinecone.io/assistant/assistants/demo''
           (get_opts cfg) = Inr r0"
    and "status r0 = 200" and "json_result r0 = Inr d0"
    and "js_get d0 ''host'' = JStr hs" and "hs \<noteq> []"
    and "normalizeAssistantBase (JStr (if startsWith ''http'' hs then hs else ''https://'' @ hs))
           = Inr base"
    and "upstream p (length (fetched w) + 1) (base @ ''/chat/demo'')
           (post_opts cfg hello_payload) = Inr r1"
    and "status r1 = 200"
    and "json_result r1 = Inr (JObj [(''message'', JObj [(''content'', JStr ''hi'')])])"
  shows "fst (handler cfg p req now w)
           = \<lparr> out_status = 200, out_headers = cors_headers cfg req,
               out_body = Some (JObj [(''success'', JBool True), (''type'', JStr ''chat''),
                  (''data'', JObj [(''response'', JStr ''hi''), (''citations'', JArr []),
                                   (''context_snippets'', JArr []), (''usage'', JObj []),
                                   (''model'', JUndefined)])]) \<rparr>
       \<and> fetched (snd (handler cfg p req now w))
           = fetched w @ [(''https://api.pinecone.io/assistant/assistants/demo'', get_opts cfg),
                          (base @ ''/chat/demo'', post_opts cfg hello_payload)]
       \<and> hostCache (snd (handler cfg p req now w)) (JStr ''demo'')
           = Some \<lparr> host = base, expiresAt = now + 5 * 60 * 1000 \<rparr>"
  using chat_hello_run[OF assms] by (intro conjI)

theorem chat_scenario_witness:
  "fst (handler cfg0 p_demo (post chat_hello) 0 w0)
     = \<lparr> out_status = 200, out_headers = cors_headers cfg0 (post chat_hello),
         out_body = Some (JObj [(''success'', JBool True), (''type'', JStr ''chat''),
            (''data'', JObj [(''response'', JStr ''hi''), (''citations'', JArr []),
                             (''context_snippets'', JArr []), (''usage'', JObj []),
                             (''model'', JUndefined)])]) \<rparr>
   \<and> fetched (snd (handler cfg0 p_demo (post chat_hello) 0 w0))
     = fetched w0 @ [(''https://api.pinecone.io/assistant/assistants/demo'', get_opts cfg0),
                     (''https://example.com/assistant'' @ ''/chat/demo'',
                      post_opts cfg0 hello_payload)]
   \<and> hostCache (snd (handler cfg0 p_demo (post chat_hello) 0 w0)) (JStr ''demo'')
     = Some \<lparr> host = ''https://example.com/assistant'', expiresAt = 0 + 5 * 60 * 1000 \<rparr>"
  by (rule chat_scenario[OF post_passes cold_start demo_discovery reply_with_sel(1)
        reply_with_sel(2) demo_host demo_chat reply_with_sel(1) reply_with_sel(2)])

text \<open>
  C5 as it was stated leaves \<^verbatim>\<open>context_snippets\<close> out of the result, which line 113
  always puts in.
\<close>

theorem chat_result_has_context_snippets:
  "out_body (fst (handler cfg0 p_demo (post chat_hello) 0 w0))
     = Some (JObj [(''success'', JBool True), (''type'', JStr ''chat''),
            (''data'', JObj [(''response'', JStr ''hi''), (''citations'', JArr []),
                             (''context_snippets'', JArr []), (''usage'', JObj []),
                             (''model'', JUndefined)])])
   \<and> out_body (fst (handler cfg0 p_demo (post chat_hello) 0 w0))
     \<noteq> Some (JObj [(''success'', JBool True), (''type'', JStr ''chat''),
            (''data'', JObj [(''response'', JStr ''hi''), (''citations'', JArr []),
                             (''usage'', JObj []), (''model'', JUndefined)])])"
  using chat_hello_run(1)[OF post_passes cold_start demo_discovery reply_with_sel(1)
        reply_with_sel(2) demo_host demo_chat reply_with_sel(1) reply_with_sel(2), of 0]
  by simp

section \<open>A search request with neither query nor messages\<close>

lemma search_payload_empty: "search_payload (JObj []) = None"
  by (simp add: search_payload_def js_or_def opt_prop_def)

lemma search_bare_discovers:
  "fst (handler cfg0 p_demo (post search_bare) 0 w0)
     = \<lparr> out_status = 400, out_headers = cors_headers cfg0 (post search_bare),
         out_body = Some (JObj [(''success'', JBool False),
                                (''error'', JStr (''search: provide '' @ [CHR 0x27] @ ''query''
                                   @ [CHR 0x27] @ '' or '' @ [CHR 0x27] @ ''messages''
                                   @ [CHR 0x27]))]) \<rparr>
   \<and> fetched (snd (handler cfg0 p_demo (post search_bare) 0 w0))
     = [(''https://api.pinecone.io/assistant/assistants/demo'', get_opts cfg0)]"
proof -
  let ?name = "JStr ''demo''"
  let ?w1 = "w0 \<lparr> fetched := fetched w0 @ [(assistant_url ?name, get_opts cfg0)],
                  hostCache := cache_set (hostCache w0) ?name
                                 \<lparr> host = ''https://example.com/assistant'',
                                   expiresAt = 0 + HOST_CACHE_TTL_MS \<rparr> \<rparr>"
  have pb: "parse_body p_demo (in_body (post search_bare)) = Some search_bare"
    by (simp add: post_passes parse_body_def search_bare_def)
  have miss: "\<forall>c. cache_get (hostCache w0) ?name = Some c \<longrightarrow> expiresAt c \<le> 0"
    by (simp add: cache_get_def cold_start)
  have up: "upstream p_demo (length (fetched w0)) (assistant_url ?name) (get_opts cfg0)
              = Inr (reply_with 200 ''OK'' [] (Inr (JObj [(''host'', JStr ''example.com'')]))
                       ''https://api.pinecone.io/assistant/assistants/demo'')"
    using demo_discovery by (simp only: assistant_url_demo)
  have okr: "ok (reply_with 200 ''OK'' [] (Inr (JObj [(''host'', JStr ''example.com'')]))
                       ''https://api.pinecone.io/assistant/assistants/demo'')"
    by (simp add: ok_def reply_with_sel)
  note g = getAssistantBase_discovers[OF miss up okr reply_with_sel(2) demo_host]
  have rb: "resolve_base cfg0 p_demo 0 JUndefined ?name w0
              = (Inr ''https://example.com/assistant'', ?w1)"
    by (simp add: resolve_base_def g)
  have hs: "handle_search cfg0 p_demo 0 JUndefined ?name (JObj []) w0
              = (Inr (400, fail_body (''search: provide '' @ [CHR 0x27] @ ''query''
                          @ [CHR 0x27] @ '' or '' @ [CHR 0x27] @ ''messages'' @ [CHR 0x27])), ?w1)"
    using rb by (simp add: handle_search_def search_payload_empty)
  have h: "handler cfg0 p_demo (post search_bare) 0 w0
             = (\<lparr> out_status = 400, out_headers = cors_headers cfg0 (post search_bare),
                  out_body = Some (fail_body (''search: provide '' @ [CHR 0x27] @ ''query''
                          @ [CHR 0x27] @ '' or '' @ [CHR 0x27] @ ''messages'' @ [CHR 0x27])) \<rparr>, ?w1)"
    unfolding handler_post[OF post_passes(1,2) pb]
    using hs by (simp add: search_bare_def js_or_def js_default_def route_def)
  show ?thesis
    by (simp add: h fail_body_def assistant_url_demo no_calls_yet)
qed

lemma search_bare_busy:
  "out_status (fst (handler cfg0 p_busy (post search_bare) 0 w0)) = 429
   \<and> fetched (snd (handler cfg0 p_busy (post search_bare) 0 w0))
       = replicate 3 (''https://api.pinecone.io/assistant/assistants/demo'', get_opts cfg0)"
proof -
  let ?name = "JStr ''demo''"
  let ?u = "assistant_url ?name"
  have pb: "parse_body p_busy (in_body (post search_bare)) = Some search_bare"
    by (simp add: post_passes parse_body_def search_bare_def)
  have all: "\<forall>i. \<exists>resp. upstream p_busy i ?u (get_opts cfg0) = Inr resp \<and> status resp = 429"
    by (simp add: p_busy_def runtime_def reply_with_sel)
  have two: "(0::int) \<le> 2" by simp
  from doFetch_all_429[OF all two, of w0]
  obtain resp w' where d: "doFetch p_busy ?u (get_opts cfg0) 2 w0 = (Inl (enrich resp), w')"
    and f: "fetched w' = fetched w0 @ replicate (nat 2 + 1) (?u, get_opts cfg0)"
    and up: "upstream p_busy (length (fetched w0) + nat 2) ?u (get_opts cfg0) = Inr resp"
    by blast
  from up have "status resp = 429" by (auto simp: p_busy_def runtime_def reply_with_sel)
  with enrich_status[of resp] obtain msg details where e: "enrich resp = HttpErr 429 msg details"
    by auto
  have g: "getAssistantBase cfg0 p_busy 0 ?name w0 = (Inl (HttpErr 429 msg details), w')"
    using d e by (simp add: getAssistantBase_def cache_get_def cold_start)
  have hs: "handle_search cfg0 p_busy 0 JUndefined ?name (JObj []) w0
              = (Inl (HttpErr 429 msg details), w')"
    using g by (simp add: handle_search_def resolve_base_def)
  have h: "handler cfg0 p_busy (post search_bare) 0 w0
             = (\<lparr> out_status = 429, out_headers = cors_headers cfg0 (post search_bare),
                  out_body = Some (JObj [(''success'', JBool False), (''error'', JStr msg),
                                         (''details'', details)]) \<rparr>, w')"
    unfolding handler_post[OF post_passes(1,2) pb]
    using hs by (simp add: search_bare_def js_or_def js_default_def route_def normalizeError_def)
  have "nat 2 + 1 = (3::nat)" by simp
  with f have "fetched w' = replicate 3 (?u, get_opts cfg0)" by (simp add: no_calls_yet)
  then show ?thesis by (simp add: h assistant_url_demo)
qed

text \<open>
  C3.  The claim is that a search request with neither a query nor messages is answered
  400 before any network call.  On a cold cache and with no explicit host the code
  resolves the base first (line 123) and validates afterwards (line 134): the request
  \<open>search_bare\<close> sends the discovery request and is answered 400 only once that has
  succeeded; when the discovery is rate-limited, three requests go out and the answer
  is the upstream's 429.
\<close>

theorem search_without_query_asks_upstream_first:
  "fst (handler cfg0 p_demo (post search_bare) 0 w0)
     = \<lparr> out_status = 400, out_headers = cors_headers cfg0 (post search_bare),
         out_body = Some (JObj [(''success'', JBool False),
                                (''error'', JStr (''search: provide '' @ [CHR 0x27] @ ''query''
                                   @ [CHR 0x27] @ '' or '' @ [CHR 0x27] @ ''messages''
                                   @ [CHR 0x27]))]) \<rparr>
   \<and> fetched (snd (handler cfg0 p_demo (post search_bare) 0 w0))
     = [(''https://api.pinecone.io/assistant/assistants/demo'', get_opts cfg0)]
   \<and> out_status (fst (handler cfg0 p_busy (post search_bare) 0 w0)) = 429
   \<and> fetched (snd (handler cfg0 p_busy (post search_bare) 0 w0))
       = replicate 3 (''https://api.pinecone.io/assistant/assistants/demo'', get_opts cfg0)"
  using search_bare_discovers search_bare_busy by (simp only: simp_thms)

end
